theory Spec2Isabelle
  imports Complex_Main "HOL-Library.Multiset"
begin

section \<open>Vision3D: the Structure-from-Motion pipeline\<close>

text \<open>
  The embedded program is the OpenCV-based photogrammetry module (the first module of
  \<^verbatim>\<open>src/unnamed/part_005\<close>, lines 1 to 829) together with the parts of the simplified module
  \<^verbatim>\<open>src/client/src/lib/photogrammetry.ts\<close> that produce a \<^verbatim>\<open>Generated3DModel\<close>.

  JavaScript numbers are modelled as real numbers. The properties below are about the
  comparisons and the control flow of the code, so rounding and overflow of doubles are
  not modelled; the one place where a division by zero can reach a comparison
  (\<^verbatim>\<open>projectPoint\<close>) is modelled with an explicit non-finite result. Array indices and
  counts are natural numbers.

  OpenCV and the browser are outside the repository. Every call into them is a field of
  the record \<open>backend\<close>: what the call returns, or the exception it throws.
\<close>

subsection \<open>three.js values used by the module\<close>

text \<open>
  \<^verbatim>\<open>THREE.Vector3\<close> and \<^verbatim>\<open>THREE.Matrix3\<close> with the operations the module calls.
  three.js keeps \<^verbatim>\<open>Matrix3.elements\<close> in column-major order: \<^verbatim>\<open>set\<close> takes its nine
  arguments row by row and stores them column by column, \<^verbatim>\<open>fromArray\<close> copies nine array
  entries into \<^verbatim>\<open>elements\<close> as they are, \<^verbatim>\<open>transpose\<close> swaps \<^verbatim>\<open>elements[1],[3]\<close>,
  \<^verbatim>\<open>[2],[6]\<close> and \<^verbatim>\<open>[5],[7]\<close>, and \<^verbatim>\<open>Vector3.applyMatrix3\<close> computes
  \<^verbatim>\<open>x' = e[0]*x + e[3]*y + e[6]*z\<close>, \<^verbatim>\<open>y' = e[1]*x + e[4]*y + e[7]*z\<close>,
  \<^verbatim>\<open>z' = e[2]*x + e[5]*y + e[8]*z\<close>.
\<close>

datatype Vector3 = Vector3 (vx: real) (vy: real) (vz: real)

datatype Matrix3 = Matrix3 (elements: "real list")

definition Matrix3_set ::
  "real \<Rightarrow> real \<Rightarrow> real \<Rightarrow> real \<Rightarrow> real \<Rightarrow> real \<Rightarrow> real \<Rightarrow> real \<Rightarrow> real \<Rightarrow> Matrix3" where
  "Matrix3_set n11 n12 n13 n21 n22 n23 n31 n32 n33 =
     Matrix3 [n11, n21, n31, n12, n22, n32, n13, n23, n33]"

definition Matrix3_identity :: Matrix3 where
  "Matrix3_identity = Matrix3_set 1 0 0 0 1 0 0 0 1"

definition Matrix3_fromArray :: "real list \<Rightarrow> Matrix3" where
  "Matrix3_fromArray a = Matrix3 (map (\<lambda>i. a ! i) [0..<9])"

definition Matrix3_transpose :: "Matrix3 \<Rightarrow> Matrix3" where
  "Matrix3_transpose m =
     (let e = elements m
      in Matrix3 [e ! 0, e ! 3, e ! 6, e ! 1, e ! 4, e ! 7, e ! 2, e ! 5, e ! 8])"

definition applyMatrix3 :: "Vector3 \<Rightarrow> Matrix3 \<Rightarrow> Vector3" where
  "applyMatrix3 v m =
     (let e = elements m; x = vx v; y = vy v; z = vz v
      in Vector3 (e ! 0 * x + e ! 3 * y + e ! 6 * z)
                 (e ! 1 * x + e ! 4 * y + e ! 7 * z)
                 (e ! 2 * x + e ! 5 * y + e ! 8 * z))"

definition negate :: "Vector3 \<Rightarrow> Vector3" where
  "negate v = Vector3 (- vx v) (- vy v) (- vz v)"

definition vadd :: "Vector3 \<Rightarrow> Vector3 \<Rightarrow> Vector3" where
  "vadd v w = Vector3 (vx v + vx w) (vy v + vy w) (vz v + vz w)"

definition vsub :: "Vector3 \<Rightarrow> Vector3 \<Rightarrow> Vector3" where
  "vsub v w = Vector3 (vx v - vx w) (vy v - vy w) (vz v - vz w)"

text \<open>
  The mathematical entry in row \<open>i\<close>, column \<open>j\<close> of a three.js matrix, and of an
  OpenCV 3x3 matrix read through \<^verbatim>\<open>data64F\<close> (OpenCV stores rows one after the other).
\<close>

definition three_entry :: "Matrix3 \<Rightarrow> nat \<Rightarrow> nat \<Rightarrow> real" where
  "three_entry m i j = elements m ! (3 * j + i)"

definition cv_entry :: "(nat \<Rightarrow> real) \<Rightarrow> nat \<Rightarrow> nat \<Rightarrow> real" where
  "cv_entry d i j = d (3 * i + j)"

text \<open>The product of the 3x3 matrix with entries \<open>a i j\<close> and a vector.\<close>

definition mat_vec :: "(nat \<Rightarrow> nat \<Rightarrow> real) \<Rightarrow> Vector3 \<Rightarrow> Vector3" where
  "mat_vec a v =
     Vector3 (a 0 0 * vx v + a 0 1 * vy v + a 0 2 * vz v)
             (a 1 0 * vx v + a 1 1 * vy v + a 1 2 * vz v)
             (a 2 0 * vx v + a 2 1 * vy v + a 2 2 * vz v)"

definition transposed :: "(nat \<Rightarrow> nat \<Rightarrow> real) \<Rightarrow> nat \<Rightarrow> nat \<Rightarrow> real" where
  "transposed a i j = a j i"

subsection \<open>The data model of the module\<close>

record ProcessedImage =
  original :: nat
  processed :: string
  success :: bool

text \<open>The fields \<^verbatim>\<open>x\<close> and \<^verbatim>\<open>y\<close> of a feature point are \<open>px\<close> and \<open>py\<close> here.\<close>

record FeaturePoint =
  px :: real
  py :: real
  response :: real
  angle :: real
  octave :: real

text \<open>
  \<^verbatim>\<open>ImageFeatures\<close>: the OpenCV handles \<^verbatim>\<open>descriptors\<close>, \<^verbatim>\<open>keypoints\<close> and \<^verbatim>\<open>mat\<close> are
  opaque to the module (it only passes them back to OpenCV), so one handle stands for them.
\<close>

record ImageFeatures =
  image :: ProcessedImage
  features :: "FeaturePoint list"
  descriptors :: nat
  imageIndex :: nat

record MatchedFeature =
  point1 :: FeaturePoint
  point2 :: FeaturePoint
  image1Index :: nat
  image2Index :: nat
  confidence :: real
  queryIdx :: nat
  trainIdx :: nat

record CameraPose =
  position :: Vector3
  rotation :: Matrix3
  translation :: Vector3
  intrinsicMatrix :: Matrix3
  isValid :: bool
  reprojectionError :: real

record Color =
  red :: real
  green :: real
  blue :: real

record Point3D =
  p_position :: Vector3
  p_color :: Color
  p_confidence :: real
  p_reprojectionError :: real
  viewCount :: nat

subsection \<open>PairSelector: \<^verbatim>\<open>findBestInitialPair\<close>\<close>

text \<open>
  The key of the map is the template string of the two image indices with a dash
  between them. \<open>show_nat\<close> is the decimal rendering of an index, \<open>split_on\<close> is
  \<^verbatim>\<open>String.prototype.split\<close> for a one-character separator and \<open>Number_of\<close> is \<^verbatim>\<open>Number\<close>
  on a string of digits.
\<close>

fun show_nat :: "nat \<Rightarrow> string" where
  "show_nat n = (if n < 10 then [char_of (48 + n)]
                 else show_nat (n div 10) @ [char_of (48 + n mod 10)])"

declare show_nat.simps [simp del]

fun split_on :: "char \<Rightarrow> string \<Rightarrow> string list" where
  "split_on sep [] = [[]]"
| "split_on sep (c # cs) =
     (if c = sep then [] # split_on sep cs
      else (case split_on sep cs of
              [] \<Rightarrow> [[c]]
            | part # parts \<Rightarrow> (c # part) # parts))"

definition Number_of :: "string \<Rightarrow> nat" where
  "Number_of s = foldl (\<lambda>a c. 10 * a + (of_char c - 48)) 0 s"

definition key_string :: "MatchedFeature \<Rightarrow> string" where
  "key_string m = show_nat (image1Index m) @ ''-'' @ show_nat (image2Index m)"

text \<open>
  The JavaScript \<^verbatim>\<open>Map\<close> keeps its entries in insertion order, so it is an association
  list.
\<close>

definition has_key :: "(string \<times> MatchedFeature list) list \<Rightarrow> string \<Rightarrow> bool" where
  "has_key pc k = (k \<in> set (map fst pc))"

definition push_match ::
  "(string \<times> MatchedFeature list) list \<Rightarrow> MatchedFeature \<Rightarrow> (string \<times> MatchedFeature list) list" where
  "push_match pc m =
     (let k = key_string m;
          pc' = (if \<not> has_key pc k then pc @ [(k, [])] else pc)
      in map (\<lambda>(k', ms). if k' = k then (k', ms @ [m]) else (k', ms)) pc')"

definition group_matches :: "MatchedFeature list \<Rightarrow> (string \<times> MatchedFeature list) list" where
  "group_matches ms = foldl push_match [] ms"

record BestPair =
  image1 :: nat
  image2 :: nat
  matches :: "MatchedFeature list"

fun select_step ::
  "BestPair option \<times> nat \<Rightarrow> string \<times> MatchedFeature list \<Rightarrow> BestPair option \<times> nat" where
  "select_step (bestPair, maxMatches) (k, pairMatches) =
     (if length pairMatches > maxMatches \<and> length pairMatches \<ge> 50
      then (let parts = map Number_of (split_on CHR ''-'' k)
            in (Some \<lparr>image1 = parts ! 0, image2 = parts ! 1, matches = pairMatches\<rparr>,
                length pairMatches))
      else (bestPair, maxMatches))"

definition findBestInitialPair :: "MatchedFeature list \<Rightarrow> BestPair option" where
  "findBestInitialPair ms = fst (foldl select_step (None, 0) (group_matches ms))"

text \<open>
  Vocabulary for the statements: the image pair of a match, the matches of one image
  pair, their number, and the image pairs in the order in which the match list first
  mentions them.
\<close>

type_synonym pair_key = "nat \<times> nat"

definition key_of :: "MatchedFeature \<Rightarrow> pair_key" where
  "key_of m = (image1Index m, image2Index m)"

definition pair_string :: "pair_key \<Rightarrow> string" where
  "pair_string k = show_nat (fst k) @ ''-'' @ show_nat (snd k)"

definition matches_of :: "MatchedFeature list \<Rightarrow> pair_key \<Rightarrow> MatchedFeature list" where
  "matches_of ms k = filter (\<lambda>m. key_of m = k) ms"

definition pair_count :: "MatchedFeature list \<Rightarrow> pair_key \<Rightarrow> nat" where
  "pair_count ms k = length (matches_of ms k)"

fun first_seen :: "'a list \<Rightarrow> 'a list" where
  "first_seen [] = []"
| "first_seen (k # ks) = k # first_seen (filter (\<lambda>k'. k' \<noteq> k) ks)"

definition encountered :: "MatchedFeature list \<Rightarrow> pair_key list" where
  "encountered ms = first_seen (map key_of ms)"

subsection \<open>OpenCV and the browser\<close>

text \<open>
  A value thrown by OpenCV or by the JavaScript runtime. \<open>TypeError\<close> is what reading a
  property of \<^verbatim>\<open>undefined\<close> throws.
\<close>

datatype js_error = TypeError | Thrown nat

text \<open>\<^verbatim>\<open>cv.DMatch\<close>; its fields \<^verbatim>\<open>queryIdx\<close> and \<^verbatim>\<open>trainIdx\<close> carry the prefix \<open>dm_\<close>.\<close>

record DMatch =
  dm_queryIdx :: nat
  dm_trainIdx :: nat
  distance :: real

text \<open>
  A \<^verbatim>\<open>cv.Mat\<close> as far as the module reads it: its number of rows and columns and the
  typed-array view \<^verbatim>\<open>data64F\<close>.
\<close>

record CvMat =
  rows :: nat
  cols :: nat
  data64F :: "nat \<Rightarrow> real"

datatype estimator = RANSAC | LMEDS

text \<open>
  What \<^verbatim>\<open>cv.recoverPose\<close> returns and writes into its output arguments: the inlier count,
  \<^verbatim>\<open>R.data64F\<close>, \<^verbatim>\<open>t.data64F\<close> and, for every row \<open>i\<close>, \<^verbatim>\<open>mask.ucharPtr(i, 0)[0]\<close>.
\<close>

record PoseResult =
  inlierCount :: int
  pose_R :: "nat \<Rightarrow> real"
  pose_t :: "nat \<Rightarrow> real"
  pose_mask :: "nat \<Rightarrow> nat"

text \<open>
  The environment of one run.
  \<^item> \<open>cvReady k\<close>: the flag \<^verbatim>\<open>window.cvReady\<close> at the \<open>k\<close>-th time the poll timer fires
    (\<open>k = 0\<close> is the moment of the call).
  \<^item> \<open>ORB_create\<close>, \<open>BFMatcher\<close>: the exception thrown by the constructor, if any.
  \<^item> \<open>detect img\<close>: \<^verbatim>\<open>loadImageToMat\<close>, \<^verbatim>\<open>cvtColor\<close> and \<^verbatim>\<open>detectAndCompute\<close> on one image:
    the keypoints and the handle of the descriptor matrix, or the exception thrown.
  \<^item> \<open>knnMatch d1 d2\<close>: the rows of \<^verbatim>\<open>matcher.knnMatch(d1, d2, result, 2)\<close>.
  \<^item> \<open>imread_size img\<close>: \<^verbatim>\<open>cols\<close> and \<^verbatim>\<open>rows\<close> of the matrix \<^verbatim>\<open>loadImageToMat\<close> yields.
  \<^item> \<open>findEssentialMat\<close>, \<open>recoverPose\<close>, \<open>triangulatePoints\<close>: the OpenCV calls of the
    same names, with the arguments in the order of the call.
  \<^item> \<open>random k\<close>: the \<open>k\<close>-th value of \<^verbatim>\<open>Math.random()\<close>.
\<close>

record backend =
  cvReady :: "nat \<Rightarrow> bool"
  ORB_create :: "js_error option"
  BFMatcher :: "js_error option"
  detect :: "ProcessedImage \<Rightarrow> js_error + FeaturePoint list \<times> nat"
  knnMatch :: "nat \<Rightarrow> nat \<Rightarrow> js_error + DMatch list list"
  imread_size :: "ProcessedImage \<Rightarrow> js_error + real \<times> real"
  findEssentialMat ::
    "real list \<Rightarrow> real list \<Rightarrow> real list \<Rightarrow> estimator \<Rightarrow> real \<Rightarrow> real \<Rightarrow> js_error + CvMat"
  recoverPose :: "CvMat \<Rightarrow> real list \<Rightarrow> real list \<Rightarrow> real list \<Rightarrow> js_error + PoseResult"
  triangulatePoints ::
    "real list \<Rightarrow> real list \<Rightarrow> real list \<Rightarrow> real list \<Rightarrow> js_error + CvMat"
  random :: "nat \<Rightarrow> real"

text \<open>The calls of the geometric stage into OpenCV, in the order in which a run makes them.\<close>

datatype cv_call =
  CallFindEssentialMat estimator real real
  | CallRecoverPose
  | CallTriangulatePoints

subsection \<open>\<^verbatim>\<open>waitForOpenCV\<close>\<close>

text \<open>
  The poll has no bound: \<^verbatim>\<open>checkCV\<close> re-arms its timer until the flag is set. A run in
  which the flag is never set does not settle, which is the value \<open>None\<close>.
\<close>

partial_function (option) checkCV :: "(nat \<Rightarrow> bool) \<Rightarrow> nat \<Rightarrow> unit option" where
  "checkCV ready k = (if ready k then Some () else checkCV ready (Suc k))"

definition waitForOpenCV :: "backend \<Rightarrow> unit option" where
  "waitForOpenCV cv = (if cvReady cv 0 then Some () else checkCV (cvReady cv) 0)"

subsection \<open>FeatureExtractor: \<^verbatim>\<open>extractORBFeatures\<close>\<close>

fun extract_loop :: "backend \<Rightarrow> nat \<Rightarrow> ProcessedImage list \<Rightarrow> ImageFeatures list" where
  "extract_loop cv i [] = []"
| "extract_loop cv i (img # imgs) =
     (case detect cv img of
        Inl e \<Rightarrow> extract_loop cv (Suc i) imgs
      | Inr (fs, d) \<Rightarrow>
          \<lparr>image = img, features = fs, descriptors = d, imageIndex = i\<rparr>
          # extract_loop cv (Suc i) imgs)"

definition extractORBFeatures :: "backend \<Rightarrow> ProcessedImage list \<Rightarrow> js_error + ImageFeatures list" where
  "extractORBFeatures cv processedImages =
     (case ORB_create cv of
        Some e \<Rightarrow> Inl e
      | None \<Rightarrow> Inr (extract_loop cv 0 processedImages))"

subsection \<open>FeatureMatcher: \<^verbatim>\<open>robustFeatureMatching\<close>\<close>

text \<open>One row of the \<^verbatim>\<open>knnMatch\<close> result under Lowe's ratio test: the match it contributes.\<close>

fun ratio_test :: "DMatch list \<Rightarrow> DMatch list" where
  "ratio_test (m1 # m2 # rest) =
     (if distance m1 < 0.75 * distance m2 \<and> distance m1 < 40 then [m1] else [])"
| "ratio_test row = []"

definition goodMatches :: "DMatch list list \<Rightarrow> DMatch list" where
  "goodMatches knnMatches = concat (map ratio_test knnMatches)"

definition is_back_match :: "DMatch \<Rightarrow> DMatch list \<Rightarrow> bool" where
  "is_back_match m backMatch =
     (case backMatch of
        [] \<Rightarrow> False
      | bm # rest \<Rightarrow> dm_queryIdx bm = dm_trainIdx m \<and> dm_trainIdx bm = dm_queryIdx m)"

definition crossCheckMatches :: "DMatch list \<Rightarrow> DMatch list list \<Rightarrow> DMatch list" where
  "crossCheckMatches good backMatches = filter (\<lambda>m. list_ex (is_back_match m) backMatches) good"

definition finalMatches :: "DMatch list \<Rightarrow> DMatch list \<Rightarrow> DMatch list" where
  "finalMatches cross good = (if length cross > 20 then cross else good)"

text \<open>
  \<^verbatim>\<open>Array.prototype.sort\<close> is stable, and so is \<open>sort_key\<close>; the comparator orders
  by ascending distance.
\<close>

definition bestMatches :: "DMatch list \<Rightarrow> DMatch list" where
  "bestMatches final =
     (let sorted = sort_key distance final
      in take (min 200 (length sorted)) sorted)"

text \<open>
  A match whose index has no feature (\<^verbatim>\<open>features[idx]\<close> is \<^verbatim>\<open>undefined\<close>) is dropped by the
  test \<^verbatim>\<open>point1 && point2\<close>.
\<close>

definition convert_match :: "ImageFeatures list \<Rightarrow> nat \<Rightarrow> nat \<Rightarrow> DMatch \<Rightarrow> MatchedFeature list" where
  "convert_match imageFeatures i j m =
     (let fs1 = features (imageFeatures ! i); fs2 = features (imageFeatures ! j)
      in if dm_queryIdx m < length fs1 \<and> dm_trainIdx m < length fs2
         then [\<lparr>point1 = fs1 ! dm_queryIdx m, point2 = fs2 ! dm_trainIdx m,
                image1Index = i, image2Index = j,
                confidence = 1 / (1 + distance m),
                queryIdx = dm_queryIdx m, trainIdx = dm_trainIdx m\<rparr>]
         else [])"

text \<open>
  The matches the DMatch stage keeps for the pair \<open>(i, j)\<close>; an exception of either
  \<^verbatim>\<open>knnMatch\<close> call is caught by the \<^verbatim>\<open>try\<close> around the pair, which then adds nothing.
\<close>

definition pair_best :: "backend \<Rightarrow> ImageFeatures list \<Rightarrow> nat \<Rightarrow> nat \<Rightarrow> DMatch list" where
  "pair_best cv imageFeatures i j =
     (case knnMatch cv (descriptors (imageFeatures ! i)) (descriptors (imageFeatures ! j)) of
        Inl e \<Rightarrow> []
      | Inr knnMatches \<Rightarrow>
          (let good = goodMatches knnMatches
           in if good \<noteq> []
              then (case knnMatch cv (descriptors (imageFeatures ! j)) (descriptors (imageFeatures ! i)) of
                      Inl e \<Rightarrow> []
                    | Inr backMatches \<Rightarrow>
                        bestMatches (finalMatches (crossCheckMatches good backMatches) good))
              else bestMatches (finalMatches [] good)))"

definition match_pair :: "backend \<Rightarrow> ImageFeatures list \<Rightarrow> nat \<Rightarrow> nat \<Rightarrow> MatchedFeature list" where
  "match_pair cv imageFeatures i j =
     concat (map (convert_match imageFeatures i j) (pair_best cv imageFeatures i j))"

definition robustFeatureMatching :: "backend \<Rightarrow> ImageFeatures list \<Rightarrow> js_error + MatchedFeature list" where
  "robustFeatureMatching cv imageFeatures =
     (case BFMatcher cv of
        Some e \<Rightarrow> Inl e
      | None \<Rightarrow>
          Inr (concat (map (\<lambda>i. concat (map (\<lambda>j. match_pair cv imageFeatures i j)
                                              [Suc i..<length imageFeatures]))
                           [0..<length imageFeatures])))"

subsection \<open>IntrinsicsEstimator: \<^verbatim>\<open>estimateCameraIntrinsics\<close>\<close>

text \<open>
  The argument is \<^verbatim>\<open>processedImages[0]\<close>, which is \<^verbatim>\<open>undefined\<close> for an empty list; reading
  its field \<^verbatim>\<open>processed\<close> then throws.
\<close>

definition estimateCameraIntrinsics ::
  "backend \<Rightarrow> ProcessedImage option \<Rightarrow> js_error + Matrix3 \<times> real \<times> real" where
  "estimateCameraIntrinsics cv img =
     (case img of
        None \<Rightarrow> Inl TypeError
      | Some i \<Rightarrow>
          (case imread_size cv i of
             Inl e \<Rightarrow> Inl e
           | Inr (width, height) \<Rightarrow>
               (let fx = width * 1.2; fy = fx; cx = width / 2; cy = height / 2
                in Inr (Matrix3_set fx 0 cx 0 fy cy 0 0 1, width, height))))"


subsection \<open>TwoViewReconstructor: projection and reprojection error\<close>

text \<open>
  \<^verbatim>\<open>projectPoint\<close>. When the depth \<^verbatim>\<open>camPoint.z\<close> is zero the JavaScript divisions yield
  an infinity or NaN, and so does everything computed from them; that outcome is \<open>None\<close>.
\<close>

definition projectPoint :: "Vector3 \<Rightarrow> CameraPose \<Rightarrow> Matrix3 \<Rightarrow> (real \<times> real) option" where
  "projectPoint point3D camera intrinsics =
     (let relativePoint = vsub point3D (position camera);
          camPoint = applyMatrix3 relativePoint (rotation camera);
          fx = elements intrinsics ! 0;
          fy = elements intrinsics ! 4;
          cx = elements intrinsics ! 2;
          cy = elements intrinsics ! 5
      in if vz camPoint = 0 then None
         else Some ((vx camPoint / vz camPoint) * fx + cx, (vy camPoint / vz camPoint) * fy + cy))"

definition pixel_distance :: "real \<times> real \<Rightarrow> FeaturePoint \<Rightarrow> real" where
  "pixel_distance proj p = sqrt ((fst proj - px p)\<^sup>2 + (snd proj - py p)\<^sup>2)"

text \<open>
  \<^verbatim>\<open>calculateReprojectionError\<close>; \<open>None\<close> is a result that is an infinity or NaN, which
  fails every comparison \<^verbatim>\<open>reprojError < 2.0\<close>.
\<close>

definition calculateReprojectionError ::
  "Vector3 \<Rightarrow> MatchedFeature \<Rightarrow> CameraPose \<Rightarrow> CameraPose \<Rightarrow> Matrix3 \<Rightarrow> real option" where
  "calculateReprojectionError point3D m camera1 camera2 intrinsics =
     (case projectPoint point3D camera1 intrinsics of
        None \<Rightarrow> None
      | Some proj1 \<Rightarrow>
          (case projectPoint point3D camera2 intrinsics of
             None \<Rightarrow> None
           | Some proj2 \<Rightarrow>
               (let error1 = pixel_distance proj1 (point1 m);
                    error2 = pixel_distance proj2 (point2 m)
                in Some ((error1 + error2) / 2))))"

subsection \<open>TwoViewReconstructor: \<^verbatim>\<open>triangulatePointsOpenCV\<close>\<close>

text \<open>The 3x4 matrix \<open>[A|c]\<close> and the product of a 3x3 with a 3x4 matrix, rows first.\<close>

definition hconcat :: "(nat \<Rightarrow> real) \<Rightarrow> (nat \<Rightarrow> real) \<Rightarrow> real list" where
  "hconcat A c = concat (map (\<lambda>i. [A (3 * i), A (3 * i + 1), A (3 * i + 2), c i]) [0..<3])"

definition gemm :: "real list \<Rightarrow> real list \<Rightarrow> real list" where
  "gemm K M =
     concat (map (\<lambda>i. map (\<lambda>j. K ! (3 * i) * M ! j + K ! (3 * i + 1) * M ! (4 + j)
                                 + K ! (3 * i + 2) * M ! (8 + j)) [0..<4]) [0..<3])"

definition eye3 :: "nat \<Rightarrow> real" where
  "eye3 i = (if i = 0 \<or> i = 4 \<or> i = 8 then 1 else 0)"

text \<open>
  The arrays handed to OpenCV: the coordinates of the matched keypoints of the first and
  of the second image, and the nine \<^verbatim>\<open>elements\<close> of the intrinsics in their stored order.
\<close>

definition points1_of :: "MatchedFeature list \<Rightarrow> real list" where
  "points1_of ms = concat (map (\<lambda>m. [px (point1 m), py (point1 m)]) ms)"

definition points2_of :: "MatchedFeature list \<Rightarrow> real list" where
  "points2_of ms = concat (map (\<lambda>m. [px (point2 m), py (point2 m)]) ms)"

definition K_of :: "Matrix3 \<Rightarrow> real list" where
  "K_of intrinsics = map (\<lambda>i. elements intrinsics ! i) [0..<9]"

definition inlierMatches :: "(nat \<Rightarrow> nat) \<Rightarrow> MatchedFeature list \<Rightarrow> MatchedFeature list" where
  "inlierMatches inlier_mask ms =
     map snd (filter (\<lambda>(i, m). inlier_mask i \<noteq> 0) (zip [0..<length ms] ms))"

text \<open>
  The loop over the columns of \<^verbatim>\<open>points4D\<close>. The accepted points are pushed onto an array
  declared outside the \<^verbatim>\<open>try\<close>: when \<^verbatim>\<open>inlierMatches[i]\<close> is \<^verbatim>\<open>undefined\<close>, reading
  \<^verbatim>\<open>match.point1\<close> throws, the \<^verbatim>\<open>catch\<close> logs it and the points pushed so far are
  returned. \<open>rnd\<close> counts the calls of \<^verbatim>\<open>Math.random()\<close> made so far.
\<close>

fun accept_points ::
  "backend \<Rightarrow> CvMat \<Rightarrow> MatchedFeature list \<Rightarrow> CameraPose \<Rightarrow> CameraPose \<Rightarrow> Matrix3 \<Rightarrow>
   nat list \<Rightarrow> nat \<Rightarrow> Point3D list" where
  "accept_points cv points4D inl camera1 camera2 intrinsics [] rnd = []"
| "accept_points cv points4D inl camera1 camera2 intrinsics (i # idxs) rnd =
     (let X = data64F points4D (i * 4);
          Y = data64F points4D (i * 4 + 1);
          Z = data64F points4D (i * 4 + 2);
          W = data64F points4D (i * 4 + 3)
      in if \<bar>W\<bar> > 1 / 10 ^ 6
         then
           (let point3D = Vector3 (X / W) (Y / W) (Z / W);
                depthCam1 = Z / W;
                pointCam2 = vadd (applyMatrix3 point3D (rotation camera2)) (translation camera2);
                depthCam2 = vz pointCam2
            in if depthCam1 > 0 \<and> depthCam2 > 0
               then
                 (if i < length inl
                  then
                    (case calculateReprojectionError point3D (inl ! i) camera1 camera2 intrinsics of
                       None \<Rightarrow> accept_points cv points4D inl camera1 camera2 intrinsics idxs rnd
                     | Some reprojError \<Rightarrow>
                         if reprojError < 2.0
                         then \<lparr>p_position = point3D,
                               p_color = \<lparr>red = 0.7 + random cv rnd * 0.3,
                                          green = 0.7 + random cv (Suc rnd) * 0.3,
                                          blue = 0.9\<rparr>,
                               p_confidence = 1.0 - (reprojError / 2.0),
                               p_reprojectionError = reprojError,
                               viewCount = 2\<rparr>
                              # accept_points cv points4D inl camera1 camera2 intrinsics idxs
                                  (Suc (Suc rnd))
                         else accept_points cv points4D inl camera1 camera2 intrinsics idxs rnd)
                  else [])
               else accept_points cv points4D inl camera1 camera2 intrinsics idxs rnd)
         else accept_points cv points4D inl camera1 camera2 intrinsics idxs rnd)"

definition triangulatePointsOpenCV ::
  "backend \<Rightarrow> MatchedFeature list \<Rightarrow> CameraPose \<Rightarrow> CameraPose \<Rightarrow> Matrix3 \<Rightarrow> (nat \<Rightarrow> nat) \<Rightarrow>
   real list \<Rightarrow> (nat \<Rightarrow> real) \<Rightarrow> (nat \<Rightarrow> real) \<Rightarrow> Point3D list \<times> cv_call list" where
  "triangulatePointsOpenCV cv ms camera1 camera2 intrinsics inlier_mask K R t =
     (let P1 = gemm K (hconcat eye3 (\<lambda>i. 0));
          P2 = gemm K (hconcat R t);
          inl = inlierMatches inlier_mask ms;
          inlierPts1 = points1_of inl;
          inlierPts2 = points2_of inl
      in if length inlierPts1 < 10 then ([], [])
         else
           (case triangulatePoints cv P1 P2 inlierPts1 inlierPts2 of
              Inl e \<Rightarrow> ([], [CallTriangulatePoints])
            | Inr points4D \<Rightarrow>
                (accept_points cv points4D inl camera1 camera2 intrinsics
                   [0..<cols points4D] 0,
                 [CallTriangulatePoints])))"

subsection \<open>TwoViewReconstructor: \<^verbatim>\<open>performTwoViewReconstruction\<close>\<close>

record TwoViewResult =
  tv_success :: bool
  tv_points3D :: "Point3D list"
  tv_cameras :: "CameraPose list"

definition tv_failure :: TwoViewResult where
  "tv_failure = \<lparr>tv_success = False, tv_points3D = [], tv_cameras = []\<rparr>"

text \<open>
  The two camera poses built from the recovered \<^verbatim>\<open>R\<close> and \<^verbatim>\<open>t\<close>. The field
  \<^verbatim>\<open>projectionMatrix\<close> of a pose is a fresh \<^verbatim>\<open>THREE.Matrix4\<close> that nothing reads; it is
  left out of the record.
\<close>

definition make_camera1 :: "Matrix3 \<Rightarrow> CameraPose" where
  "make_camera1 intrinsics =
     \<lparr>position = Vector3 0 0 0, rotation = Matrix3_identity, translation = Vector3 0 0 0,
      intrinsicMatrix = intrinsics, isValid = True, reprojectionError = 0\<rparr>"

definition make_camera2 :: "Matrix3 \<Rightarrow> (nat \<Rightarrow> real) \<Rightarrow> (nat \<Rightarrow> real) \<Rightarrow> CameraPose" where
  "make_camera2 intrinsics R t =
     (let RArray = map R [0..<9];
          tVec = Vector3 (t 0) (t 1) (t 2);
          RMat = Matrix3_fromArray RArray;
          RTMat = Matrix3_transpose RMat;
          camera2Position = applyMatrix3 (negate tVec) RTMat
      in \<lparr>position = camera2Position, rotation = RMat, translation = tVec,
          intrinsicMatrix = intrinsics, isValid = True, reprojectionError = 0\<rparr>)"

definition performTwoViewReconstruction ::
  "backend \<Rightarrow> MatchedFeature list \<Rightarrow> Matrix3 \<Rightarrow> TwoViewResult \<times> cv_call list" where
  "performTwoViewReconstruction cv ms intrinsics =
     (let points1 = points1_of ms;
          points2 = points2_of ms;
          K = K_of intrinsics;
          call1 = CallFindEssentialMat RANSAC 0.999 1.0
      in case findEssentialMat cv points1 points2 K RANSAC 0.999 1.0 of
           Inl e \<Rightarrow> (tv_failure, [call1])
         | Inr essentialMatrix \<Rightarrow>
             if rows essentialMatrix = 0 then (tv_failure, [call1])
             else
               (case recoverPose cv essentialMatrix points1 points2 K of
                  Inl e \<Rightarrow> (tv_failure, [call1, CallRecoverPose])
                | Inr pose \<Rightarrow>
                    if inlierCount pose < 50 then (tv_failure, [call1, CallRecoverPose])
                    else
                      (let camera1 = make_camera1 intrinsics;
                           camera2 = make_camera2 intrinsics (pose_R pose) (pose_t pose);
                           tri = triangulatePointsOpenCV cv ms camera1 camera2 intrinsics
                                   (pose_mask pose) K (pose_R pose) (pose_t pose)
                       in (\<lparr>tv_success = True, tv_points3D = fst tri,
                            tv_cameras = [camera1, camera2]\<rparr>,
                           [call1, CallRecoverPose] @ snd tri))))"


subsection \<open>\<^verbatim>\<open>performSfMReconstruction\<close>\<close>

record ReconstructionResult =
  points3D :: "Point3D list"
  cameras :: "CameraPose list"
  rr_success :: bool
  errorMessage :: "string option"

definition sfm_failure :: "string \<Rightarrow> ReconstructionResult" where
  "sfm_failure msg = \<lparr>points3D = [], cameras = [], rr_success = False, errorMessage = Some msg\<rparr>"

text \<open>
  Nothing inside the \<^verbatim>\<open>try\<close> of this function throws in the embedding (the two-view stage
  catches its own exceptions), so its \<^verbatim>\<open>catch\<close> branch has no counterpart here.
\<close>

definition performSfMReconstruction ::
  "backend \<Rightarrow> ImageFeatures list \<Rightarrow> MatchedFeature list \<Rightarrow> Matrix3 \<Rightarrow>
   ReconstructionResult \<times> cv_call list" where
  "performSfMReconstruction cv imageFeatures ms intrinsics =
     (if length ms < 50
      then (sfm_failure ''Insufficient feature matches for reconstruction'', [])
      else
        (case findBestInitialPair ms of
           None \<Rightarrow> (sfm_failure ''Could not find suitable image pair for initialization'', [])
         | Some initPair \<Rightarrow>
             (let twoViewResult = performTwoViewReconstruction cv (matches initPair) intrinsics
              in if \<not> tv_success (fst twoViewResult)
                 then (sfm_failure ''Two-view reconstruction failed'', snd twoViewResult)
                 else (\<lparr>points3D = tv_points3D (fst twoViewResult),
                        cameras = tv_cameras (fst twoViewResult),
                        rr_success = True, errorMessage = None\<rparr>,
                       snd twoViewResult))))"

subsection \<open>three.js geometry: \<^verbatim>\<open>BufferGeometry\<close> and \<^verbatim>\<open>BoxGeometry\<close>\<close>

text \<open>
  Of a \<^verbatim>\<open>BufferGeometry\<close> the attributes \<^verbatim>\<open>position\<close> and \<^verbatim>\<open>color\<close> and the index are
  kept (normals, texture coordinates and the bounding sphere are not). \<^verbatim>\<open>BoxGeometry\<close>
  builds its six sides with \<^verbatim>\<open>buildPlane\<close>, every side with its own
  \<open>(gridX + 1) * (gridY + 1)\<close> vertices and two triangles per grid cell.
\<close>

record BufferGeometry =
  g_position :: "real list"
  g_color :: "real list option"
  g_index :: "nat list option"

datatype axis = AxisX | AxisY | AxisZ

definition set_axis :: "axis \<Rightarrow> real \<Rightarrow> Vector3 \<Rightarrow> Vector3" where
  "set_axis a c v =
     (case a of
        AxisX \<Rightarrow> Vector3 c (vy v) (vz v)
      | AxisY \<Rightarrow> Vector3 (vx v) c (vz v)
      | AxisZ \<Rightarrow> Vector3 (vx v) (vy v) c)"

definition buildPlane_vertices ::
  "axis \<Rightarrow> axis \<Rightarrow> axis \<Rightarrow> real \<Rightarrow> real \<Rightarrow> real \<Rightarrow> real \<Rightarrow> real \<Rightarrow> nat \<Rightarrow> nat \<Rightarrow> real list" where
  "buildPlane_vertices u v w udir vdir width height depth gridX gridY =
     (let segmentWidth = width / real gridX;
          segmentHeight = height / real gridY;
          widthHalf = width / 2;
          heightHalf = height / 2;
          depthHalf = depth / 2
      in concat (map (\<lambda>iy. concat (map (\<lambda>ix.
           (let gy = real iy * segmentHeight - heightHalf;
                gx = real ix * segmentWidth - widthHalf;
                vector = set_axis w depthHalf
                           (set_axis v (gy * vdir) (set_axis u (gx * udir) (Vector3 0 0 0)))
            in [vx vector, vy vector, vz vector]))
           [0..<gridX + 1])) [0..<gridY + 1]))"

definition buildPlane_indices :: "nat \<Rightarrow> nat \<Rightarrow> nat \<Rightarrow> nat list" where
  "buildPlane_indices numberOfVertices gridX gridY =
     (let gridX1 = gridX + 1
      in concat (map (\<lambda>iy. concat (map (\<lambda>ix.
           (let a = numberOfVertices + ix + gridX1 * iy;
                b = numberOfVertices + ix + gridX1 * (iy + 1);
                c = numberOfVertices + (ix + 1) + gridX1 * (iy + 1);
                d = numberOfVertices + (ix + 1) + gridX1 * iy
            in [a, b, d, b, c, d]))
           [0..<gridX])) [0..<gridY]))"

text \<open>
  One call of \<^verbatim>\<open>buildPlane\<close>: it appends to the vertex and index arrays and adds its
  vertex count to \<^verbatim>\<open>numberOfVertices\<close>.
\<close>

definition buildPlane ::
  "axis \<Rightarrow> axis \<Rightarrow> axis \<Rightarrow> real \<Rightarrow> real \<Rightarrow> real \<Rightarrow> real \<Rightarrow> real \<Rightarrow> nat \<Rightarrow> nat \<Rightarrow>
   real list \<times> nat list \<times> nat \<Rightarrow> real list \<times> nat list \<times> nat" where
  "buildPlane u v w udir vdir width height depth gridX gridY st =
     (case st of (vertices, indices, numberOfVertices) \<Rightarrow>
        (vertices @ buildPlane_vertices u v w udir vdir width height depth gridX gridY,
         indices @ buildPlane_indices numberOfVertices gridX gridY,
         numberOfVertices + (gridX + 1) * (gridY + 1)))"

definition BoxGeometry :: "real \<Rightarrow> real \<Rightarrow> real \<Rightarrow> nat \<Rightarrow> nat \<Rightarrow> nat \<Rightarrow> BufferGeometry" where
  "BoxGeometry width height depth widthSegments heightSegments depthSegments =
     (let st0 = ([], [], 0);
          st1 = buildPlane AxisZ AxisY AxisX (- 1) (- 1) depth height width
                  depthSegments heightSegments st0;
          st2 = buildPlane AxisZ AxisY AxisX 1 (- 1) depth height (- width)
                  depthSegments heightSegments st1;
          st3 = buildPlane AxisX AxisZ AxisY 1 1 width depth height
                  widthSegments depthSegments st2;
          st4 = buildPlane AxisX AxisZ AxisY 1 (- 1) width depth (- height)
                  widthSegments depthSegments st3;
          st5 = buildPlane AxisX AxisY AxisZ 1 (- 1) width height depth
                  widthSegments heightSegments st4;
          st6 = buildPlane AxisX AxisY AxisZ (- 1) (- 1) width height (- depth)
                  widthSegments heightSegments st5
      in \<lparr>g_position = fst st6, g_color = None, g_index = Some (fst (snd st6))\<rparr>)"

subsection \<open>PointCloudAssembler and FallbackModelGenerator\<close>

datatype Material =
  MeshPhongMaterial nat
  | PointsMaterial
  | MeshLambertMaterial

text \<open>
  \<^verbatim>\<open>Generated3DModel\<close> as declared in \<^verbatim>\<open>useVision3D.tsx\<close>; the field \<^verbatim>\<open>sourceImageCount\<close>
  is optional there.
\<close>

record Generated3DModel =
  geometry :: BufferGeometry
  material :: Material
  vertices :: "real list"
  faces :: "nat list"
  sourceImageCount :: "nat option"

definition createEmptyModel :: Generated3DModel where
  "createEmptyModel =
     (let geom = BoxGeometry 1 1 1 1 1 1
      in \<lparr>geometry = geom, material = MeshPhongMaterial 0x888888,
          vertices = g_position geom,
          faces = (case g_index geom of Some a \<Rightarrow> a | None \<Rightarrow> []),
          sourceImageCount = None\<rparr>)"

definition createFallbackModel :: "ProcessedImage list \<Rightarrow> Generated3DModel" where
  "createFallbackModel processedImages = createEmptyModel"

definition generateMeshFromPointCloud :: "Point3D list \<Rightarrow> Generated3DModel" where
  "generateMeshFromPointCloud pts =
     (if length pts = 0 then createEmptyModel
      else
        (let vs = concat (map (\<lambda>p. [vx (p_position p), vy (p_position p), vz (p_position p)]) pts);
             colors = concat (map (\<lambda>p. [red (p_color p), green (p_color p), blue (p_color p)]) pts)
         in \<lparr>geometry = \<lparr>g_position = vs, g_color = Some colors, g_index = None\<rparr>,
             material = PointsMaterial,
             vertices = vs,
             faces = [],
             sourceImageCount = None\<rparr>))"

subsection \<open>The top level: \<^verbatim>\<open>generateModel\<close>\<close>

text \<open>
  The body of the \<^verbatim>\<open>try\<close> block, in two parts: steps 1 to 4 up to the reconstruction
  result, and the rest. \<open>Inl\<close> is an exception that reaches the \<^verbatim>\<open>catch\<close> of
  \<^verbatim>\<open>generateModel\<close>. \<^verbatim>\<open>cleanupOpenCVResources\<close> catches whatever its \<^verbatim>\<open>delete\<close> calls throw
  and returns nothing, so it has no effect on the result.
\<close>

definition reconstruct ::
  "backend \<Rightarrow> ProcessedImage list \<Rightarrow> js_error + ReconstructionResult \<times> cv_call list" where
  "reconstruct cv processedImages =
     (case extractORBFeatures cv processedImages of
        Inl e \<Rightarrow> Inl e
      | Inr imageFeatures \<Rightarrow>
          (case robustFeatureMatching cv imageFeatures of
             Inl e \<Rightarrow> Inl e
           | Inr ms \<Rightarrow>
               (case estimateCameraIntrinsics cv
                       (case processedImages of [] \<Rightarrow> None | img # rest \<Rightarrow> Some img) of
                  Inl e \<Rightarrow> Inl e
                | Inr intrinsicsData \<Rightarrow>
                    Inr (performSfMReconstruction cv imageFeatures ms (fst intrinsicsData)))))"

definition pipeline ::
  "backend \<Rightarrow> ProcessedImage list \<Rightarrow> js_error + Generated3DModel \<times> cv_call list" where
  "pipeline cv processedImages =
     (case reconstruct cv processedImages of
        Inl e \<Rightarrow> Inl e
      | Inr reconstruction \<Rightarrow>
          if \<not> rr_success (fst reconstruction)
          then Inr (createFallbackModel processedImages, snd reconstruction)
          else Inr (generateMeshFromPointCloud (points3D (fst reconstruction)),
                    snd reconstruction))"

text \<open>
  \<open>None\<close>: the promise never settles. \<open>Some (Inl e)\<close>: it is rejected with \<open>e\<close>.
  \<open>Some (Inr (model, calls))\<close>: it is fulfilled with \<open>model\<close>, after the OpenCV calls
  \<open>calls\<close> of the geometric stage.
\<close>

definition generateModel ::
  "backend \<Rightarrow> ProcessedImage list \<Rightarrow> (js_error + Generated3DModel \<times> cv_call list) option" where
  "generateModel cv processedImages =
     (case waitForOpenCV cv of
        None \<Rightarrow> None
      | Some u \<Rightarrow>
          (case pipeline cv processedImages of
             Inl e \<Rightarrow> Some (Inr (createFallbackModel processedImages, []))
           | Inr res \<Rightarrow> Some (Inr res)))"


subsection \<open>The simplified module: \<^verbatim>\<open>generateMesh\<close>\<close>

text \<open>
  \<^verbatim>\<open>src/client/src/lib/photogrammetry.ts\<close> has its own \<^verbatim>\<open>Point3D\<close> (position, colour,
  confidence) and builds its model with \<^verbatim>\<open>generateMesh\<close>.
\<close>

record SimplePoint3D =
  sp_position :: Vector3
  sp_color :: Color
  sp_confidence :: real

definition vlength :: "Vector3 \<Rightarrow> real" where
  "vlength v = sqrt ((vx v)\<^sup>2 + (vy v)\<^sup>2 + (vz v)\<^sup>2)"

text \<open>The points with their indices, ordered by distance from the origin.\<close>

definition sortedPoints :: "SimplePoint3D list \<Rightarrow> (nat \<times> SimplePoint3D) list" where
  "sortedPoints pts =
     sort_key (\<lambda>(index, point). vlength (sp_position point)) (zip [0..<length pts] pts)"

text \<open>\<^verbatim>\<open>sortedPoints[i]?.index\<close>\<close>

definition index_at :: "(nat \<times> SimplePoint3D) list \<Rightarrow> int \<Rightarrow> nat option" where
  "index_at sp i = (if 0 \<le> i \<and> i < int (length sp) then Some (fst (sp ! nat i)) else None)"

text \<open>
  The faces of one layer. The loop bound keeps \<open>i\<close> inside the array, so
  \<^verbatim>\<open>sortedPoints[i].index\<close> is always defined there.
\<close>

definition layer_faces :: "(nat \<times> SimplePoint3D) list \<Rightarrow> int \<Rightarrow> int \<Rightarrow> nat list" where
  "layer_faces sp layerSize layer =
     (let startIdx = layer * layerSize * layerSize;
          endIdx = min ((layer + 1) * layerSize * layerSize) (int (length sp))
      in concat (map (\<lambda>i.
           (case index_at sp i of
              None \<Rightarrow> []
            | Some current \<Rightarrow>
                (case (index_at sp (i + 1), index_at sp (i + layerSize)) of
                   (Some right, Some down) \<Rightarrow>
                     [current, right, down] @
                     (case index_at sp (i + layerSize + 1) of
                        Some diag \<Rightarrow> [right, diag, down]
                      | None \<Rightarrow> [])
                 | other \<Rightarrow> [])))
           [startIdx..endIdx - layerSize - 2]))"

text \<open>The remainder operator \<^verbatim>\<open>%\<close> on two positive numbers.\<close>

definition js_rem :: "real \<Rightarrow> real \<Rightarrow> real" where
  "js_rem a c = a - c * of_int \<lfloor>a / c\<rfloor>"

text \<open>
  The entries of \<^verbatim>\<open>faces\<close> go through \<^verbatim>\<open>new Uint32Array(faces)\<close>, which drops the
  fraction of \<^verbatim>\<open>next\<close>.
\<close>

definition radial_faces :: "nat \<Rightarrow> nat list" where
  "radial_faces n =
     (let numRadialConnections = min 100 (real n / 10)
      in concat (map (\<lambda>i.
           (let next = js_rem (real i + 1) numRadialConnections
            in if next < real n then [0, i, nat \<lfloor>next\<rfloor>] else []))
           [1..<nat \<lceil>numRadialConnections\<rceil>]))"

definition generateDelaunayTriangulation :: "SimplePoint3D list \<Rightarrow> nat list" where
  "generateDelaunayTriangulation pts =
     (let sp = sortedPoints pts;
          layerSize = \<lfloor>sqrt (real (length pts) / 4)\<rfloor>
      in concat (map (layer_faces sp layerSize) [0..3]) @ radial_faces (length pts))"

definition generateMesh :: "SimplePoint3D list \<Rightarrow> nat \<Rightarrow> Generated3DModel" where
  "generateMesh pts sourceCount =
     (let vs = concat (map (\<lambda>p. [vx (sp_position p), vy (sp_position p), vz (sp_position p)]) pts);
          colors = concat (map (\<lambda>p. [red (sp_color p), green (sp_color p), blue (sp_color p)]) pts);
          fcs = generateDelaunayTriangulation pts
      in \<lparr>geometry = \<lparr>g_position = vs, g_color = Some colors, g_index = Some fcs\<rparr>,
          material = MeshLambertMaterial,
          vertices = vs,
          faces = fcs,
          sourceImageCount = Some sourceCount\<rparr>)"

text \<open>
  The simplified \<^verbatim>\<open>generateModel\<close> passes the points of its steps 1 to 4 and
  \<^verbatim>\<open>processedImages.length\<close> to \<^verbatim>\<open>generateMesh\<close>; \<open>points_of\<close> stands for those steps.
\<close>

definition generateModel_simplified ::
  "(ProcessedImage list \<Rightarrow> SimplePoint3D list) \<Rightarrow> ProcessedImage list \<Rightarrow> Generated3DModel" where
  "generateModel_simplified points_of processedImages =
     generateMesh (points_of processedImages) (length processedImages)"

subsection \<open>Vocabulary of the statements\<close>

text \<open>
  The depth of a world point in the frame of a camera pose: the third coordinate of
  \<open>rotation \<cdot> X + translation\<close>, with the rotation applied as three.js applies it.
\<close>

definition depth_in :: "CameraPose \<Rightarrow> Vector3 \<Rightarrow> real" where
  "depth_in camera X = vz (vadd (applyMatrix3 X (rotation camera)) (translation camera))"


definition pinhole :: "real \<Rightarrow> real \<Rightarrow> real \<Rightarrow> real \<Rightarrow> Vector3 \<Rightarrow> real \<times> real" where
  "pinhole fx fy cx cy Xc = (fx * vx Xc / vz Xc + cx, fy * vy Xc / vz Xc + cy)"

text \<open>Column \<open>i\<close> of \<^verbatim>\<open>points4D\<close>, divided by its fourth entry.\<close>

definition column_point :: "CvMat \<Rightarrow> nat \<Rightarrow> Vector3" where
  "column_point points4D i =
     Vector3 (data64F points4D (i * 4) / data64F points4D (i * 4 + 3))
             (data64F points4D (i * 4 + 1) / data64F points4D (i * 4 + 3))
             (data64F points4D (i * 4 + 2) / data64F points4D (i * 4 + 3))"

text \<open>The entries of a stride-3 buffer, three at a time.\<close>

fun triples :: "'a list \<Rightarrow> ('a \<times> 'a \<times> 'a) list" where
  "triples (a # b # c # rest) = (a, b, c) # triples rest"
| "triples rest = []"

text \<open>The state of the selection loop of \<^verbatim>\<open>findBestInitialPair\<close> after the entries \<open>es\<close>.\<close>

definition sel_inv ::
  "(string \<times> MatchedFeature list) list \<Rightarrow> BestPair option \<times> nat \<Rightarrow> bool" where
  "sel_inv es st =
     (case fst st of
        None \<Rightarrow> snd st = 0 \<and> (\<forall>e \<in> set es. length (snd e) < 50)
      | Some bp \<Rightarrow>
          snd st = length (matches bp) \<and> 50 \<le> snd st \<and>
          (\<exists>i < length es.
             snd (es ! i) = matches bp \<and>
             image1 bp = map Number_of (split_on CHR ''-'' (fst (es ! i))) ! 0 \<and>
             image2 bp = map Number_of (split_on CHR ''-'' (fst (es ! i))) ! 1 \<and>
             (\<forall>j < i. length (snd (es ! j)) < snd st)) \<and>
          (\<forall>e \<in> set es. length (snd e) \<le> snd st))"

subsection \<open>The simplified module: \<^verbatim>\<open>matchFeatures\<close>\<close>

text \<open>
  The matcher of \<^verbatim>\<open>src/client/src/lib/photogrammetry.ts\<close> works on float descriptors with
  the Euclidean distance and keeps the nearest and second nearest distance in two
  variables that start at \<^verbatim>\<open>Infinity\<close>, which is \<open>None\<close> here.
\<close>

record SimpleFeature =
  sf_x :: real
  sf_y :: real
  descriptor :: "real list"

record SimpleImageFeatures =
  s_features :: "SimpleFeature list"
  s_imageIndex :: nat

record SimpleMatch =
  sm_point1 :: SimpleFeature
  sm_point2 :: SimpleFeature
  sm_image1Index :: nat
  sm_image2Index :: nat
  sm_confidence :: real

definition computeDescriptorDistance :: "real list \<Rightarrow> real list \<Rightarrow> real" where
  "computeDescriptorDistance desc1 desc2 =
     sqrt (sum_list (map (\<lambda>(a, c). (a - c)\<^sup>2) (zip desc1 desc2)))"

fun below :: "real \<Rightarrow> real option \<Rightarrow> bool" where
  "below d None = True"
| "below d (Some c) = (d < c)"

definition nearest_step ::
  "SimpleFeature \<Rightarrow> SimpleFeature option \<times> real option \<times> real option \<Rightarrow> SimpleFeature \<Rightarrow>
   SimpleFeature option \<times> real option \<times> real option" where
  "nearest_step feature1 st feature2 =
     (case st of (bestMatch, bestDistance, secondBestDistance) \<Rightarrow>
        (let d = computeDescriptorDistance (descriptor feature1) (descriptor feature2)
         in if below d bestDistance then (Some feature2, Some d, bestDistance)
            else if below d secondBestDistance then (bestMatch, bestDistance, Some d)
            else (bestMatch, bestDistance, secondBestDistance)))"

definition nearest_two ::
  "SimpleFeature \<Rightarrow> SimpleFeature list \<Rightarrow> SimpleFeature option \<times> real option \<times> real option" where
  "nearest_two feature1 features2 = foldl (nearest_step feature1) (None, None, None) features2"

text \<open>
  The ratio test of the simplified matcher. With a single candidate the second distance
  is still \<^verbatim>\<open>Infinity\<close>: the test \<^verbatim>\<open>bestDistance < 0.7 * Infinity\<close> holds and the confidence
  \<^verbatim>\<open>1 - bestDistance / Infinity\<close> is 1.
\<close>

definition match_feature :: "nat \<Rightarrow> nat \<Rightarrow> SimpleFeature \<Rightarrow> SimpleFeature list \<Rightarrow> SimpleMatch list" where
  "match_feature i j feature1 features2 =
     (case nearest_two feature1 features2 of
        (Some bestMatch, Some bestDistance, None) \<Rightarrow>
          [\<lparr>sm_point1 = feature1, sm_point2 = bestMatch, sm_image1Index = i,
            sm_image2Index = j, sm_confidence = 1\<rparr>]
      | (Some bestMatch, Some bestDistance, Some secondBestDistance) \<Rightarrow>
          if bestDistance < 0.7 * secondBestDistance
          then [\<lparr>sm_point1 = feature1, sm_point2 = bestMatch, sm_image1Index = i,
                 sm_image2Index = j,
                 sm_confidence = 1 - bestDistance / secondBestDistance\<rparr>]
          else []
      | other \<Rightarrow> [])"

definition matchFeatures :: "SimpleImageFeatures list \<Rightarrow> SimpleMatch list" where
  "matchFeatures imageFeatures =
     (let ms = concat (map (\<lambda>i. concat (map (\<lambda>j.
                 concat (map (\<lambda>feature1. match_feature i j feature1
                                             (s_features (imageFeatures ! j)))
                             (s_features (imageFeatures ! i))))
               [Suc i..<length imageFeatures])) [0..<length imageFeatures])
      in take 1000 (sort_key (\<lambda>m. - sm_confidence m) ms))"

text \<open>The state of the nearest-neighbour loop of \<^verbatim>\<open>matchFeatures\<close> after the candidates \<open>fs\<close>.\<close>

definition nearest_inv ::
  "SimpleFeature \<Rightarrow> SimpleFeature list \<Rightarrow> SimpleFeature option \<times> real option \<times> real option \<Rightarrow> bool" where
  "nearest_inv f1 fs st =
     (case st of (bm, bd, sbd) \<Rightarrow>
        (case bm of
           None \<Rightarrow> fs = [] \<and> bd = None \<and> sbd = None
         | Some b \<Rightarrow>
             b \<in> set fs \<and>
             bd = Some (computeDescriptorDistance (descriptor f1) (descriptor b)) \<and>
             (\<forall>f2 \<in> set fs. computeDescriptorDistance (descriptor f1) (descriptor b)
                              \<le> computeDescriptorDistance (descriptor f1) (descriptor f2))))"

subsection \<open>Sample runs\<close>

text \<open>
  Two images with fifty keypoints each, on a horizontal line, the second image shifted by
  768 pixels. Every keypoint \<open>k\<close> of the first image has keypoint \<open>k\<close> of the second as
  nearest neighbour at Hamming distance 10 and keypoint \<open>k + 1\<close> as second nearest at
  distance 20, in both directions. The sample backend is ready at the second poll. Its
  estimator answers the call with the method RANSAC, confidence 0.999 and threshold 1.0
  with an essential matrix of \<open>erows\<close> rows, and a call with any other method or
  parameter with one of \<open>3 - erows\<close> rows; \<open>inl\<close> says whether pose recovery marks the
  matches as inliers. Triangulation yields one homogeneous point.
\<close>

definition sample_image :: "nat \<Rightarrow> ProcessedImage" where
  "sample_image k = \<lparr>original = k, processed = ''data:image/png'', success = True\<rparr>"

definition sample_point :: "nat \<Rightarrow> nat \<Rightarrow> FeaturePoint" where
  "sample_point i k = \<lparr>px = real k + 768 * real i, py = 0, response = 1, angle = 0, octave = 0\<rparr>"

definition sample_knn :: "DMatch list list" where
  "sample_knn = map (\<lambda>k. [\<lparr>dm_queryIdx = k, dm_trainIdx = k, distance = 10\<rparr>,
                            \<lparr>dm_queryIdx = k, dm_trainIdx = Suc k, distance = 20\<rparr>]) [0..<50]"

definition unit_x :: "nat \<Rightarrow> real" where
  "unit_x i = (if i = 0 then 1 else 0)"

definition sample_pose :: "bool \<Rightarrow> PoseResult" where
  "sample_pose inl = \<lparr>inlierCount = 50, pose_R = eye3, pose_t = unit_x,
                      pose_mask = (\<lambda>i. if inl then 1 else 0)\<rparr>"

definition sample_points4D :: CvMat where
  "sample_points4D =
     \<lparr>rows = 4, cols = 1,
      data64F = (\<lambda>i. if i = 0 then 1 / 768 else if i = 2 \<or> i = 3 then 1 else 0)\<rparr>"

definition sample_cv :: "nat \<Rightarrow> bool \<Rightarrow> backend" where
  "sample_cv erows inl =
     \<lparr>cvReady = (\<lambda>k. 2 \<le> k), ORB_create = None, BFMatcher = None,
      detect = (\<lambda>img. Inr (map (sample_point (original img)) [0..<50], original img)),
      knnMatch = (\<lambda>d1 d2. Inr sample_knn),
      imread_size = (\<lambda>img. Inr (640, 480)),
      findEssentialMat =
        (\<lambda>p1 p2 K m c t.
           Inr \<lparr>rows = (if m = RANSAC \<and> c = 0.999 \<and> t = 1.0 then erows else 3 - erows),
                cols = 3, data64F = (\<lambda>i. 0)\<rparr>),
      recoverPose = (\<lambda>E p1 p2 K. Inr (sample_pose inl)),
      triangulatePoints = (\<lambda>P1 P2 a c. Inr sample_points4D),
      random = (\<lambda>k. 1 / 2)\<rparr>"

definition sample_images :: "ProcessedImage list" where
  "sample_images = [sample_image 0, sample_image 1]"

definition sample_features :: "ImageFeatures list" where
  "sample_features =
     [\<lparr>image = sample_image 0, features = map (sample_point 0) [0..<50],
       descriptors = 0, imageIndex = 0\<rparr>,
      \<lparr>image = sample_image 1, features = map (sample_point 1) [0..<50],
       descriptors = 1, imageIndex = 1\<rparr>]"

definition sample_match :: "nat \<Rightarrow> nat \<Rightarrow> nat \<Rightarrow> MatchedFeature" where
  "sample_match i j k =
     \<lparr>point1 = sample_point i k, point2 = sample_point j k, image1Index = i, image2Index = j,
      confidence = 1 / 11, queryIdx = k, trainIdx = k\<rparr>"

definition sample_matches :: "MatchedFeature list" where
  "sample_matches = map (sample_match 0 1) [0..<50]"

definition sample_intrinsics :: Matrix3 where
  "sample_intrinsics = Matrix3_set 768 0 320 0 768 240 0 0 1"

definition sample_point3D :: Point3D where
  "sample_point3D =
     \<lparr>p_position = Vector3 (1 / 768) 0 1,
      p_color = \<lparr>red = 0.85, green = 0.85, blue = 0.9\<rparr>,
      p_confidence = 0.5, p_reprojectionError = 1, viewCount = 2\<rparr>"

text \<open>
  A recovered rotation by a quarter turn about the optical axis, as \<^verbatim>\<open>R.data64F\<close> holds it
  (rows \<open>(0, -1, 0)\<close>, \<open>(1, 0, 0)\<close>, \<open>(0, 0, 1)\<close>).
\<close>

definition quarter_turn :: "nat \<Rightarrow> real" where
  "quarter_turn i = (if i = 1 then - 1 else if i = 3 \<or> i = 8 then 1 else 0)"

text \<open>Sixty matches over three images: thirty for the pair (0, 1), thirty for (0, 2).\<close>

definition sample_matches60 :: "MatchedFeature list" where
  "sample_matches60 = map (sample_match 0 1) [0..<30] @ map (sample_match 0 2) [0..<30]"

text \<open>A backend on which the flag \<^verbatim>\<open>window.cvReady\<close> is never set.\<close>

definition never_ready :: backend where
  "never_ready = (sample_cv 3 True)\<lparr>cvReady := (\<lambda>k. False)\<rparr>"








section \<open>Properties\<close>

subsection \<open>PairSelector\<close>

lemma set_first_seen [simp]: "set (first_seen ks) = set ks"
  by (induction ks rule: first_seen.induct) auto

lemma first_seen_snoc:
  "first_seen (ks @ [k]) = (if k \<in> set ks then first_seen ks else first_seen ks @ [k])"
  by (induction ks rule: first_seen.induct) auto

lemma group_matches_snoc: "group_matches (ms @ [m]) = push_match (group_matches ms) m"
  by (simp add: group_matches_def)

lemma matches_of_absent: "k \<notin> key_of ` set ms \<Longrightarrow> matches_of ms k = []"
  by (auto simp: matches_of_def filter_empty_conv)

lemma matches_of_snoc:
  "matches_of (ms @ [m]) k = (if key_of m = k then matches_of ms k @ [m] else matches_of ms k)"
  by (simp add: matches_of_def)

text \<open>
  The string key names the image pair: it is read back by the split at the dash and
  \<^verbatim>\<open>Number\<close>, so different pairs have different keys.
\<close>

lemma digit_not_dash: "d < 10 \<Longrightarrow> char_of (48 + (d::nat)) \<noteq> CHR ''-''"
proof
  assume d: "d < 10" and "char_of (48 + d) = CHR ''-''"
  then have "of_char (char_of (48 + d)) = (of_char CHR ''-'' :: nat)" by simp
  with d show False by simp
qed

lemma show_nat_no_dash: "CHR ''-'' \<notin> set (show_nat n)"
proof (induction n rule: show_nat.induct)
  case (1 n)
  show ?case
  proof (cases "n < 10")
    case True
    with digit_not_dash[of n] show ?thesis by (subst show_nat.simps) auto
  next
    case False
    with 1 digit_not_dash[of "n mod 10"] show ?thesis by (subst show_nat.simps) auto
  qed
qed

lemma Number_of_snoc: "Number_of (s @ [c]) = 10 * Number_of s + (of_char c - 48)"
  by (simp add: Number_of_def)

lemma Number_of_show_nat: "Number_of (show_nat n) = n"
proof (induction n rule: show_nat.induct)
  case (1 n)
  show ?case
  proof (cases "n < 10")
    case True
    then show ?thesis by (subst show_nat.simps) (simp add: Number_of_def)
  next
    case False
    with 1 have "Number_of (show_nat (n div 10)) = n div 10" by simp
    with False show ?thesis
      by (subst show_nat.simps) (simp add: Number_of_snoc)
  qed
qed

lemma split_on_absent: "sep \<notin> set s \<Longrightarrow> split_on sep s = [s]"
  by (induction s) auto

lemma split_on_first:
  "sep \<notin> set s \<Longrightarrow> split_on sep (s @ sep # rest) = s # split_on sep rest"
  by (induction s) auto

lemma split_pair_string:
  "map Number_of (split_on CHR ''-'' (pair_string k)) = [fst k, snd k]"
  by (simp add: pair_string_def split_on_first split_on_absent show_nat_no_dash
      Number_of_show_nat)

lemma pair_string_inj: "pair_string k = pair_string k' \<longleftrightarrow> k = k'"
proof
  assume "pair_string k = pair_string k'"
  then have "map Number_of (split_on CHR ''-'' (pair_string k)) =
             map Number_of (split_on CHR ''-'' (pair_string k'))" by simp
  then show "k = k'" unfolding split_pair_string by (simp add: prod_eq_iff)
qed simp

lemma key_string_pair: "key_string m = pair_string (key_of m)"
  by (simp add: key_string_def pair_string_def key_of_def)

text \<open>
  The map built by the grouping loop: one entry per image pair, in the order of first
  mention, holding that pair's matches in their order.
\<close>

lemma group_matches_eq:
  "group_matches ms = map (\<lambda>k. (pair_string k, matches_of ms k)) (encountered ms)"
proof (induction ms rule: rev_induct)
  case Nil
  show ?case by (simp add: group_matches_def encountered_def)
next
  case (snoc m ms)
  let ?k = "key_of m"
  let ?upd = "\<lambda>(k', vs). if k' = key_string m then (k', vs @ [m]) else (k', vs)"
  have upd: "map ?upd (map (\<lambda>k. (pair_string k, matches_of ms k)) ks) =
             map (\<lambda>k. (pair_string k, matches_of (ms @ [m]) k)) ks" for ks
    by (induction ks) (auto simp: matches_of_snoc key_string_pair pair_string_inj)
  have keys: "has_key (group_matches ms) (key_string m) \<longleftrightarrow> ?k \<in> key_of ` set ms"
    by (auto simp: has_key_def snoc.IH comp_def encountered_def key_string_pair
        pair_string_inj)
  show ?case
  proof (cases "?k \<in> key_of ` set ms")
    case True
    with keys have "push_match (group_matches ms) m = map ?upd (group_matches ms)"
      by (simp add: push_match_def Let_def)
    also have "\<dots> = map (\<lambda>k. (pair_string k, matches_of (ms @ [m]) k)) (encountered ms)"
      unfolding snoc.IH by (rule upd)
    also from True have "encountered ms = encountered (ms @ [m])"
      by (simp add: encountered_def first_seen_snoc)
    finally show ?thesis
      unfolding group_matches_snoc .
  next
    case False
    with keys have "push_match (group_matches ms) m =
               map ?upd (group_matches ms) @ [(key_string m, [m])]"
      by (simp add: push_match_def Let_def)
    also have "map ?upd (group_matches ms) =
               map (\<lambda>k. (pair_string k, matches_of (ms @ [m]) k)) (encountered ms)"
      unfolding snoc.IH by (rule upd)
    also from False have "[(key_string m, [m])] =
               map (\<lambda>k. (pair_string k, matches_of (ms @ [m]) k)) [?k]"
      by (simp add: matches_of_snoc matches_of_absent key_string_pair)
    also have "map (\<lambda>k. (pair_string k, matches_of (ms @ [m]) k)) (encountered ms) @
               map (\<lambda>k. (pair_string k, matches_of (ms @ [m]) k)) [?k] =
               map (\<lambda>k. (pair_string k, matches_of (ms @ [m]) k)) (encountered ms @ [?k])"
      by simp
    also from False have "encountered ms @ [?k] = encountered (ms @ [m])"
      by (simp add: encountered_def first_seen_snoc)
    finally show ?thesis
      unfolding group_matches_snoc .
  qed
qed

lemma sel_inv_step:
  assumes "sel_inv es st"
  shows "sel_inv (es @ [e]) (select_step st e)"
proof -
  obtain bo n where st: "st = (bo, n)" by (cases st)
  obtain k vs where e: "e = (k, vs)" by (cases e)
  show ?thesis
  proof (cases "length vs > n \<and> length vs \<ge> 50")
    case True
    have bound: "length (snd (es ! j)) < length vs" if "j < length es" for j
    proof -
      from that have mem: "es ! j \<in> set es" by simp
      show ?thesis
      proof (cases bo)
        case None
        with assms st mem have "length (snd (es ! j)) < 50" by (simp add: sel_inv_def)
        with True show ?thesis by simp
      next
        case (Some bp)
        with assms st mem have "length (snd (es ! j)) \<le> n" by (auto simp: sel_inv_def)
        with True show ?thesis by simp
      qed
    qed
    have "\<forall>e' \<in> set es. length (snd e') \<le> length vs"
    proof
      fix e' assume "e' \<in> set es"
      then obtain j where "j < length es" "es ! j = e'" by (auto simp: in_set_conv_nth)
      with bound[of j] show "length (snd e') \<le> length vs" by auto
    qed
    with True st e bound show ?thesis
      by (auto simp: sel_inv_def nth_append Let_def intro!: exI[of _ "length es"])
  next
    case False
    then have step: "select_step st e = st" using st e by auto
    show ?thesis
    proof (cases bo)
      case None
      with assms st e False show ?thesis
        unfolding step by (auto simp: sel_inv_def)
    next
      case (Some bp)
      with assms st obtain i where i: "i < length es"
        "snd (es ! i) = matches bp"
        "image1 bp = map Number_of (split_on CHR ''-'' (fst (es ! i))) ! 0"
        "image2 bp = map Number_of (split_on CHR ''-'' (fst (es ! i))) ! 1"
        "\<forall>j < i. length (snd (es ! j)) < n" by (auto simp: sel_inv_def)
      from Some assms st have rest: "n = length (matches bp)" "50 \<le> n"
        "\<forall>e \<in> set es. length (snd e) \<le> n" by (auto simp: sel_inv_def)
      from rest False have "length vs \<le> n" by auto
      with i rest Some st e show ?thesis
        unfolding step by (auto simp: sel_inv_def nth_append intro!: exI[of _ i])
    qed
  qed
qed

lemma sel_inv_foldl:
  "sel_inv es st \<Longrightarrow> sel_inv (es @ es') (foldl select_step st es')"
proof (induction es' arbitrary: es st)
  case Nil then show ?case by simp
next
  case (Cons e es')
  from Cons.IH[OF sel_inv_step[OF Cons.prems, of e]] show ?case by simp
qed

lemma sel_inv_final: "sel_inv es (foldl select_step (None, 0) es)"
  using sel_inv_foldl[of "[]" "(None, 0)" es] by (simp add: sel_inv_def)

lemma pair_count_bounded:
  "pair_count ms k \<le> n" if "\<forall>e \<in> set (group_matches ms). length (snd e) \<le> n"
proof (cases "k \<in> key_of ` set ms")
  case True
  then have "(pair_string k, matches_of ms k) \<in> set (group_matches ms)"
    by (auto simp: group_matches_eq encountered_def)
  with that show ?thesis by (auto simp: pair_count_def)
next
  case False
  then show ?thesis by (simp add: pair_count_def matches_of_absent)
qed

text \<open>What the selection loop has chosen, in terms of the match list.\<close>

lemma selected_pair:
  assumes "fst (foldl select_step (None, 0) (group_matches ms)) = Some bp"
  shows "\<exists>i < length (encountered ms).
           encountered ms ! i = (image1 bp, image2 bp) \<and>
           matches bp = matches_of ms (image1 bp, image2 bp) \<and>
           50 \<le> length (matches bp) \<and>
           (\<forall>j < i. pair_count ms (encountered ms ! j) < length (matches bp)) \<and>
           (\<forall>k. pair_count ms k \<le> length (matches bp))"
proof -
  let ?es = "group_matches ms"
  let ?en = "encountered ms"
  from sel_inv_final[of ?es] assms obtain i where i: "i < length ?es"
    "snd (?es ! i) = matches bp"
    "image1 bp = map Number_of (split_on CHR ''-'' (fst (?es ! i))) ! 0"
    "image2 bp = map Number_of (split_on CHR ''-'' (fst (?es ! i))) ! 1"
    "\<forall>j < i. length (snd (?es ! j)) < length (matches bp)"
    and len: "50 \<le> length (matches bp)"
    and mx: "\<forall>e \<in> set ?es. length (snd e) \<le> length (matches bp)"
    by (auto simp: sel_inv_def)
  from i(1) have i': "i < length ?en" by (simp add: group_matches_eq)
  then have entry: "?es ! i = (pair_string (?en ! i), matches_of ms (?en ! i))"
    by (simp add: group_matches_eq)
  from i(3,4) have key: "?en ! i = (image1 bp, image2 bp)"
    unfolding entry by (simp add: split_pair_string prod_eq_iff)
  from i(2) have ms: "matches bp = matches_of ms (image1 bp, image2 bp)"
    unfolding entry key by simp
  have earlier: "\<forall>j < i. pair_count ms (?en ! j) < length (matches bp)"
  proof (intro allI impI)
    fix j assume j: "j < i"
    with i' have "?es ! j = (pair_string (?en ! j), matches_of ms (?en ! j))"
      by (simp add: group_matches_eq)
    with i(5) j show "pair_count ms (?en ! j) < length (matches bp)"
      by (auto simp: pair_count_def)
  qed
  from mx have "\<forall>k. pair_count ms k \<le> length (matches bp)"
    using pair_count_bounded by blast
  with i' key ms len earlier show ?thesis by blast
qed

text \<open>
  Claim C6. When some image pair has at least 50 correspondences,
  \<^verbatim>\<open>findBestInitialPair\<close> returns a pair together with exactly its correspondences; no pair
  has more correspondences than the returned one, and every pair first met earlier in
  the match list has strictly fewer, so a tie goes to the pair met first. When no pair
  reaches 50, it returns no pair.
\<close>

theorem findBestInitialPair_selects:
  "((\<exists>k. 50 \<le> pair_count ms k) \<longrightarrow>
      (\<exists>bp i. findBestInitialPair ms = Some bp \<and>
         matches bp = matches_of ms (image1 bp, image2 bp) \<and>
         50 \<le> length (matches bp) \<and>
         (\<forall>k. pair_count ms k \<le> length (matches bp)) \<and>
         i < length (encountered ms) \<and> encountered ms ! i = (image1 bp, image2 bp) \<and>
         (\<forall>j < i. pair_count ms (encountered ms ! j) < length (matches bp)))) \<and>
   ((\<forall>k. pair_count ms k < 50) \<longrightarrow> findBestInitialPair ms = None)"
proof (intro conjI impI)
  let ?es = "group_matches ms"
  let ?st = "foldl select_step (None, 0) ?es"
  have inv: "sel_inv ?es ?st" by (rule sel_inv_final)
  {
    assume "\<exists>k. 50 \<le> pair_count ms k"
    then obtain k where k: "50 \<le> pair_count ms k" ..
    then have "matches_of ms k \<noteq> []" by (auto simp: pair_count_def)
    then have "k \<in> key_of ` set ms" using matches_of_absent by blast
    then have mem: "(pair_string k, matches_of ms k) \<in> set ?es"
      by (auto simp: group_matches_eq encountered_def)
    have "fst ?st \<noteq> None"
    proof
      assume "fst ?st = None"
      with inv mem have "length (matches_of ms k) < 50" by (auto simp: sel_inv_def)
      with k show False by (simp add: pair_count_def)
    qed
    then obtain bp where bp: "fst ?st = Some bp" by auto
    from selected_pair[OF bp] bp
    show "\<exists>bp i. findBestInitialPair ms = Some bp \<and>
         matches bp = matches_of ms (image1 bp, image2 bp) \<and>
         50 \<le> length (matches bp) \<and>
         (\<forall>k. pair_count ms k \<le> length (matches bp)) \<and>
         i < length (encountered ms) \<and> encountered ms ! i = (image1 bp, image2 bp) \<and>
         (\<forall>j < i. pair_count ms (encountered ms ! j) < length (matches bp))"
      unfolding findBestInitialPair_def by blast
  }
  {
    assume small: "\<forall>k. pair_count ms k < 50"
    show "findBestInitialPair ms = None"
    proof (rule ccontr)
      assume "findBestInitialPair ms \<noteq> None"
      then obtain bp where bp: "fst ?st = Some bp" by (auto simp: findBestInitialPair_def)
      from selected_pair[OF bp] have "50 \<le> pair_count ms (image1 bp, image2 bp)"
        by (auto simp: pair_count_def)
      with small[rule_format, of "(image1 bp, image2 bp)"] show False by simp
    qed
  }
qed

lemma sample_pair_count: "pair_count (map (sample_match i j) [0..<n] @ ms') (i, j) \<ge> n"
  by (simp add: pair_count_def matches_of_def filter_map comp_def key_of_def sample_match_def)

theorem findBestInitialPair_selects_witness:
  "(\<exists>k. 50 \<le> pair_count (sample_matches @ map (sample_match 0 2) [0..<50]) k) \<and>
   (\<exists>bp i. findBestInitialPair (sample_matches @ map (sample_match 0 2) [0..<50]) = Some bp \<and>
      matches bp = matches_of (sample_matches @ map (sample_match 0 2) [0..<50])
                     (image1 bp, image2 bp) \<and>
      50 \<le> length (matches bp) \<and>
      (\<forall>k. pair_count (sample_matches @ map (sample_match 0 2) [0..<50]) k
             \<le> length (matches bp)) \<and>
      i < length (encountered (sample_matches @ map (sample_match 0 2) [0..<50])) \<and>
      encountered (sample_matches @ map (sample_match 0 2) [0..<50]) ! i
        = (image1 bp, image2 bp) \<and>
      (\<forall>j < i. pair_count (sample_matches @ map (sample_match 0 2) [0..<50])
                  (encountered (sample_matches @ map (sample_match 0 2) [0..<50]) ! j)
                < length (matches bp))) \<and>
   (\<forall>k. pair_count [] k < 50) \<and> findBestInitialPair [] = None"
proof -
  let ?W = "sample_matches @ map (sample_match 0 2) [0..<50]"
  have "50 \<le> pair_count ?W (0, 1)"
    unfolding sample_matches_def by (rule sample_pair_count)
  then have h1: "\<exists>k. 50 \<le> pair_count ?W k" ..
  have h2: "\<forall>k. pair_count [] k < 50" by (simp add: pair_count_def matches_of_def)
  from h1 h2 findBestInitialPair_selects[of ?W] findBestInitialPair_selects[of "[]"]
  show ?thesis by blast
qed

subsection \<open>FeatureMatcher\<close>

lemma ratio_test_cases:
  "d \<in> set (ratio_test row) \<Longrightarrow>
   \<exists>m2 rest. row = d # m2 # rest \<and> distance d < 0.75 * distance m2 \<and> distance d < 40"
  by (induction row rule: ratio_test.induct) (auto split: if_splits)

lemma goodMatches_cases:
  assumes "d \<in> set (goodMatches knn)"
  shows "\<exists>m2 rest. d # m2 # rest \<in> set knn \<and> distance d < 0.75 * distance m2 \<and> distance d < 40"
proof -
  from assms obtain row where row: "row \<in> set knn" "d \<in> set (ratio_test row)"
    by (auto simp: goodMatches_def)
  from ratio_test_cases[OF row(2)] row(1) show ?thesis by blast
qed

lemma set_crossCheckMatches: "set (crossCheckMatches good bms) \<subseteq> set good"
  by (auto simp: crossCheckMatches_def)

lemma set_finalMatches: "set (finalMatches (crossCheckMatches good bms) good) \<subseteq> set good"
  using set_crossCheckMatches by (auto simp: finalMatches_def)

lemma bestMatches_take: "bestMatches final = take 200 (sort_key distance final)"
  by (simp add: bestMatches_def Let_def min_def)

lemma set_bestMatches: "set (bestMatches final) \<subseteq> set final"
  using set_take_subset[of 200 "sort_key distance final"] by (simp add: bestMatches_take)

lemma pair_best_good:
  assumes "d \<in> set (pair_best cv fs i j)"
  shows "\<exists>knn. knnMatch cv (descriptors (fs ! i)) (descriptors (fs ! j)) = Inr knn \<and>
           d \<in> set (goodMatches knn)"
proof (cases "knnMatch cv (descriptors (fs ! i)) (descriptors (fs ! j))")
  case (Inl e)
  with assms show ?thesis by (simp add: pair_best_def)
next
  case (Inr knn)
  note forward = this
  show ?thesis
  proof (cases "goodMatches knn = []")
    case True
    with assms forward show ?thesis
      by (simp add: pair_best_def finalMatches_def bestMatches_take)
  next
    case False
    show ?thesis
    proof (cases "knnMatch cv (descriptors (fs ! j)) (descriptors (fs ! i))")
      case (Inl e)
      with assms forward False show ?thesis by (simp add: pair_best_def)
    next
      case (Inr backMatches)
      with assms forward False
      have "d \<in> set (bestMatches (finalMatches
          (crossCheckMatches (goodMatches knn) backMatches) (goodMatches knn)))"
        by (simp add: pair_best_def Let_def)
      then have "d \<in> set (goodMatches knn)"
        using set_bestMatches set_finalMatches by blast
      with forward show ?thesis by simp
    qed
  qed
qed

lemma convert_match_fields:
  "m \<in> set (convert_match fs i j d) \<Longrightarrow>
   image1Index m = i \<and> image2Index m = j \<and> queryIdx m = dm_queryIdx d \<and>
   trainIdx m = dm_trainIdx d \<and> confidence m = 1 / (1 + distance d)"
  by (auto simp: convert_match_def Let_def split: if_splits)

lemma robustFeatureMatching_member:
  assumes "robustFeatureMatching cv fs = Inr ms" and "m \<in> set ms"
  shows "\<exists>i j d. i < j \<and> j < length fs \<and> d \<in> set (pair_best cv fs i j) \<and>
           m \<in> set (convert_match fs i j d)"
proof -
  from assms(1) have "ms = concat (map (\<lambda>i. concat (map (\<lambda>j. match_pair cv fs i j)
      [Suc i..<length fs])) [0..<length fs])"
    by (simp add: robustFeatureMatching_def split: option.splits)
  with assms(2) have "\<exists>i < length fs.
      m \<in> set (concat (map (\<lambda>j. match_pair cv fs i j) [Suc i..<length fs]))"
    by (simp add: Bex_def)
  then obtain i where i: "i < length fs"
    "m \<in> set (concat (map (\<lambda>j. match_pair cv fs i j) [Suc i..<length fs]))"
    by blast
  then obtain j where j: "Suc i \<le> j" "j < length fs" "m \<in> set (match_pair cv fs i j)"
    by auto
  then obtain d where "d \<in> set (pair_best cv fs i j)" "m \<in> set (convert_match fs i j d)"
    by (auto simp: match_pair_def)
  with j show ?thesis by (intro exI[of _ i] exI[of _ j] exI[of _ d]) simp
qed

text \<open>
  Claim C3. Every correspondence that \<^verbatim>\<open>robustFeatureMatching\<close> returns comes from a row
  of the \<^verbatim>\<open>knnMatch\<close> result of its image pair whose first entry (the nearest neighbour)
  gave the correspondence its indices and confidence; the distance of that nearest
  neighbour is strictly below 0.75 times the distance of the row's second entry (the
  second nearest), and strictly below the absolute cutoff 40.
\<close>

theorem robustFeatureMatching_ratio_test:
  assumes "robustFeatureMatching cv fs = Inr ms" and "m \<in> set ms"
  shows "\<exists>knn nearest second rest.
           image1Index m < image2Index m \<and> image2Index m < length fs \<and>
           knnMatch cv (descriptors (fs ! image1Index m)) (descriptors (fs ! image2Index m))
             = Inr knn \<and>
           nearest # second # rest \<in> set knn \<and>
           queryIdx m = dm_queryIdx nearest \<and> trainIdx m = dm_trainIdx nearest \<and>
           confidence m = 1 / (1 + distance nearest) \<and>
           distance nearest < 0.75 * distance second \<and> distance nearest < 40"
proof -
  from robustFeatureMatching_member[OF assms] obtain i j d where
    ij: "i < j" "j < length fs" and d: "d \<in> set (pair_best cv fs i j)"
    and m: "m \<in> set (convert_match fs i j d)" by blast
  from convert_match_fields[OF m] have f: "image1Index m = i" "image2Index m = j"
    "queryIdx m = dm_queryIdx d" "trainIdx m = dm_trainIdx d"
    "confidence m = 1 / (1 + distance d)" by auto
  from pair_best_good[OF d] obtain knn where
    knn: "knnMatch cv (descriptors (fs ! i)) (descriptors (fs ! j)) = Inr knn"
    and g: "d \<in> set (goodMatches knn)" by blast
  from goodMatches_cases[OF g] obtain m2 rest where
    "d # m2 # rest \<in> set knn" "distance d < 0.75 * distance m2" "distance d < 40" by blast
  with ij f knn show ?thesis by blast
qed

lemma sample_extract: "extractORBFeatures (sample_cv e inl) sample_images = Inr sample_features"
  by (simp add: extractORBFeatures_def sample_cv_def sample_images_def sample_features_def
      sample_image_def)

lemma sample_match_all:
  "robustFeatureMatching (sample_cv e inl) sample_features = Inr sample_matches"
  by (simp add: robustFeatureMatching_def sample_cv_def match_pair_def pair_best_def
      goodMatches_def sample_knn_def upt_rec crossCheckMatches_def is_back_match_def
      finalMatches_def bestMatches_def convert_match_def sample_point_def sample_features_def
      sample_matches_def sample_match_def)

lemma sample_matches_length: "length sample_matches = 50"
  by (simp add: sample_matches_def)

lemma sample_matches_0: "sample_matches ! 0 = sample_match 0 1 0"
  by (simp add: sample_matches_def)

lemma sample_match_member: "sample_match 0 1 0 \<in> set sample_matches"
  using nth_mem[of 0 sample_matches] by (simp add: sample_matches_length sample_matches_0)

theorem robustFeatureMatching_ratio_test_witness:
  "robustFeatureMatching (sample_cv 3 True) sample_features = Inr sample_matches \<and>
   sample_match 0 1 0 \<in> set sample_matches \<and>
   (\<exists>knn nearest second rest.
      image1Index (sample_match 0 1 0) < image2Index (sample_match 0 1 0) \<and>
      image2Index (sample_match 0 1 0) < length sample_features \<and>
      knnMatch (sample_cv 3 True)
        (descriptors (sample_features ! image1Index (sample_match 0 1 0)))
        (descriptors (sample_features ! image2Index (sample_match 0 1 0))) = Inr knn \<and>
      nearest # second # rest \<in> set knn \<and>
      queryIdx (sample_match 0 1 0) = dm_queryIdx nearest \<and>
      trainIdx (sample_match 0 1 0) = dm_trainIdx nearest \<and>
      confidence (sample_match 0 1 0) = 1 / (1 + distance nearest) \<and>
      distance nearest < 0.75 * distance second \<and> distance nearest < 40)"
  using robustFeatureMatching_ratio_test[OF sample_match_all sample_match_member, of 3 True]
    sample_match_all[of 3 True] sample_match_member
  by blast





subsection \<open>The simplified matcher\<close>

lemma nearest_inv_step:
  assumes "nearest_inv f1 fs st"
  shows "nearest_inv f1 (fs @ [f2]) (nearest_step f1 st f2)"
proof -
  obtain bm bd sbd where st: "st = (bm, bd, sbd)" by (cases st)
  show ?thesis
  proof (cases bm)
    case None
    with assms st show ?thesis
      by (simp add: nearest_inv_def nearest_step_def Let_def)
  next
    case (Some b)
    with assms st show ?thesis
      by (auto simp: nearest_inv_def nearest_step_def Let_def)
  qed
qed

lemma nearest_inv_foldl:
  "nearest_inv f1 fs st \<Longrightarrow> nearest_inv f1 (fs @ fs') (foldl (nearest_step f1) st fs')"
proof (induction fs' arbitrary: fs st)
  case Nil then show ?case by simp
next
  case (Cons f2 fs')
  from Cons.IH[OF nearest_inv_step[OF Cons.prems, of f2]] show ?case by simp
qed

lemma nearest_two_inv: "nearest_inv f1 fs (nearest_two f1 fs)"
  using nearest_inv_foldl[of f1 "[]" "(None, None, None)" fs]
  by (simp add: nearest_two_def nearest_inv_def)

lemma sum_squares_nonneg: "0 \<le> sum_list (map (\<lambda>a::real. a\<^sup>2) xs)"
  by (induction xs) auto

lemma computeDescriptorDistance_nonneg: "0 \<le> computeDescriptorDistance xs ys"
proof -
  have "0 \<le> sum_list (map (\<lambda>(a::real, c). (a - c)\<^sup>2) zs)" for zs
    by (induction zs) auto
  then show ?thesis by (simp add: computeDescriptorDistance_def)
qed

lemma match_feature_ratio:
  assumes "m \<in> set (match_feature i j f1 fs)"
  shows "\<exists>nearest second.
           nearest_two f1 fs
             = (Some (sm_point2 m),
                Some (computeDescriptorDistance (descriptor f1) (descriptor (sm_point2 m))),
                second) \<and>
           nearest = computeDescriptorDistance (descriptor f1) (descriptor (sm_point2 m)) \<and>
           sm_point2 m \<in> set fs \<and>
           (\<forall>f2 \<in> set fs. nearest \<le> computeDescriptorDistance (descriptor f1) (descriptor f2)) \<and>
           (case second of
              None \<Rightarrow> sm_confidence m = 1
            | Some s \<Rightarrow> nearest < 0.7 * s \<and> nearest < 0.75 * s \<and>
                        sm_confidence m = 1 - nearest / s) \<and>
           sm_point1 m = f1 \<and> sm_image1Index m = i \<and> sm_image2Index m = j"
proof -
  obtain bm bd sbd where st: "nearest_two f1 fs = (bm, bd, sbd)" by (cases "nearest_two f1 fs")
  from assms st obtain b d where b: "bm = Some b" "bd = Some d"
    by (auto simp: match_feature_def split: option.splits)
  from nearest_two_inv[of f1 fs] st b have inv: "b \<in> set fs"
    "d = computeDescriptorDistance (descriptor f1) (descriptor b)"
    "\<forall>f2 \<in> set fs. d \<le> computeDescriptorDistance (descriptor f1) (descriptor f2)"
    by (auto simp: nearest_inv_def)
  have nonneg: "0 \<le> d" unfolding inv(2) by (rule computeDescriptorDistance_nonneg)
  show ?thesis
  proof (cases sbd)
    case None
    with assms st b inv show ?thesis by (auto simp: match_feature_def)
  next
    case (Some s)
    with assms st b have acc: "d < 0.7 * s" and m: "sm_point2 m = b"
      "sm_confidence m = 1 - d / s" "sm_point1 m = f1" "sm_image1Index m = i"
      "sm_image2Index m = j"
      by (auto simp: match_feature_def split: if_splits)
    from acc nonneg have "d < 0.75 * s" by simp
    with acc m st b inv Some show ?thesis by simp
  qed
qed

lemma matchFeatures_member:
  assumes "m \<in> set (matchFeatures fs)"
  shows "\<exists>i j f1. i < j \<and> j < length fs \<and> f1 \<in> set (s_features (fs ! i)) \<and>
           m \<in> set (match_feature i j f1 (s_features (fs ! j)))"
proof -
  let ?all = "concat (map (\<lambda>i. concat (map (\<lambda>j.
                 concat (map (\<lambda>feature1. match_feature i j feature1 (s_features (fs ! j)))
                             (s_features (fs ! i))))
               [Suc i..<length fs])) [0..<length fs])"
  from assms have "m \<in> set (take 1000 (sort_key (\<lambda>m. - sm_confidence m) ?all))"
    by (simp add: matchFeatures_def Let_def)
  then have "m \<in> set ?all" using set_take_subset by fastforce
  then have "\<exists>i < length fs. m \<in> set (concat (map (\<lambda>j.
                 concat (map (\<lambda>feature1. match_feature i j feature1 (s_features (fs ! j)))
                             (s_features (fs ! i)))) [Suc i..<length fs]))"
    by (simp add: Bex_def)
  then obtain i where i: "i < length fs" "m \<in> set (concat (map (\<lambda>j.
                 concat (map (\<lambda>feature1. match_feature i j feature1 (s_features (fs ! j)))
                             (s_features (fs ! i)))) [Suc i..<length fs]))" by blast
  from i(2) have "\<exists>j. Suc i \<le> j \<and> j < length fs \<and>
    m \<in> set (concat (map (\<lambda>feature1. match_feature i j feature1 (s_features (fs ! j)))
                             (s_features (fs ! i))))" by (simp add: Bex_def)
  then obtain j where j: "Suc i \<le> j" "j < length fs"
    "m \<in> set (concat (map (\<lambda>feature1. match_feature i j feature1 (s_features (fs ! j)))
                             (s_features (fs ! i))))" by blast
  from j(3) have "\<exists>f1 \<in> set (s_features (fs ! i)).
      m \<in> set (match_feature i j f1 (s_features (fs ! j)))"
    by simp
  then obtain f1 where "f1 \<in> set (s_features (fs ! i))"
    "m \<in> set (match_feature i j f1 (s_features (fs ! j)))" by blast
  with j show ?thesis by (intro exI[of _ i] exI[of _ j] exI[of _ f1]) simp
qed

text \<open>
  Descriptors come out of \<^verbatim>\<open>computeDescriptor\<close> divided by their magnitude (or all zero), so
  their squares sum to at most 1; two such descriptors are at most 2 apart.
\<close>

lemma squares_zip_bound:
  fixes xs ys :: "real list"
  shows "sum_list (map (\<lambda>(a, c). (a - c)\<^sup>2) (zip xs ys))
     \<le> 2 * sum_list (map (\<lambda>a. a\<^sup>2) xs) + 2 * sum_list (map (\<lambda>c. c\<^sup>2) ys)"
proof (induction xs arbitrary: ys)
  case Nil
  from sum_squares_nonneg[of ys] show ?case by simp
next
  case (Cons a xs)
  show ?case
  proof (cases ys)
    case Nil
    from sum_squares_nonneg[of xs] Nil show ?thesis by simp
  next
    case (Cons c ys')
    have "(a - c)\<^sup>2 \<le> 2 * a\<^sup>2 + 2 * c\<^sup>2"
    proof -
      have "0 \<le> (a + c)\<^sup>2" by simp
      then show ?thesis by (simp add: power2_eq_square algebra_simps)
    qed
    with Cons.IH[of ys'] Cons show ?thesis by simp
  qed
qed

lemma computeDescriptorDistance_bound:
  assumes "sum_list (map (\<lambda>a. a\<^sup>2) xs) \<le> 1" "sum_list (map (\<lambda>c. c\<^sup>2) ys) \<le> 1"
  shows "computeDescriptorDistance xs ys \<le> 2"
proof -
  from squares_zip_bound[of xs ys] assms
  have "sum_list (map (\<lambda>(a, c). (a - c)\<^sup>2) (zip xs ys)) \<le> 2\<^sup>2" by simp
  then have "sqrt (sum_list (map (\<lambda>(a, c). (a - c)\<^sup>2) (zip xs ys))) \<le> sqrt (2\<^sup>2)"
    by (rule real_sqrt_le_mono)
  then show ?thesis by (simp add: computeDescriptorDistance_def)
qed

text \<open>
  The simplified matcher meets the same two conditions: every correspondence it returns
  goes to the nearest descriptor of the other image, at a distance strictly below 0.7
  times, hence 0.75 times, the second nearest distance the loop has kept (when there is
  one), and below 40 when the descriptors are normalised.
\<close>

lemma matchFeatures_ratio:
  assumes "m \<in> set (matchFeatures fs)"
  shows "\<exists>i j nearest second.
           i < j \<and> j < length fs \<and> sm_image1Index m = i \<and> sm_image2Index m = j \<and>
           sm_point1 m \<in> set (s_features (fs ! i)) \<and> sm_point2 m \<in> set (s_features (fs ! j)) \<and>
           nearest = computeDescriptorDistance (descriptor (sm_point1 m)) (descriptor (sm_point2 m)) \<and>
           (\<forall>f2 \<in> set (s_features (fs ! j)).
               nearest \<le> computeDescriptorDistance (descriptor (sm_point1 m)) (descriptor f2)) \<and>
           nearest_two (sm_point1 m) (s_features (fs ! j))
             = (Some (sm_point2 m), Some nearest, second) \<and>
           (case second of
              None \<Rightarrow> sm_confidence m = 1
            | Some s \<Rightarrow> nearest < 0.7 * s \<and> nearest < 0.75 * s \<and>
                        sm_confidence m = 1 - nearest / s) \<and>
           (sum_list (map (\<lambda>a. a\<^sup>2) (descriptor (sm_point1 m))) \<le> 1 \<and>
            sum_list (map (\<lambda>a. a\<^sup>2) (descriptor (sm_point2 m))) \<le> 1 \<longrightarrow> nearest < 40)"
proof -
  from matchFeatures_member[OF assms] obtain i j f1 where
    ij: "i < j" "j < length fs" "f1 \<in> set (s_features (fs ! i))"
    and m: "m \<in> set (match_feature i j f1 (s_features (fs ! j)))" by blast
  let ?d = "computeDescriptorDistance (descriptor (sm_point1 m)) (descriptor (sm_point2 m))"
  from match_feature_ratio[OF m] have f1: "f1 = sm_point1 m" by blast
  from match_feature_ratio[OF m] obtain second where
    r: "nearest_two (sm_point1 m) (s_features (fs ! j)) = (Some (sm_point2 m), Some ?d, second)"
    "sm_point2 m \<in> set (s_features (fs ! j))"
    "\<forall>f2 \<in> set (s_features (fs ! j)).
        ?d \<le> computeDescriptorDistance (descriptor (sm_point1 m)) (descriptor f2)"
    "case second of
       None \<Rightarrow> sm_confidence m = 1
     | Some s \<Rightarrow> ?d < 0.7 * s \<and> ?d < 0.75 * s \<and> sm_confidence m = 1 - ?d / s"
    "sm_image1Index m = i" "sm_image2Index m = j"
    unfolding f1 by blast
  have cut: "sum_list (map (\<lambda>a. a\<^sup>2) (descriptor (sm_point1 m))) \<le> 1 \<and>
            sum_list (map (\<lambda>a. a\<^sup>2) (descriptor (sm_point2 m))) \<le> 1 \<longrightarrow> ?d < 40"
    using computeDescriptorDistance_bound[of "descriptor (sm_point1 m)" "descriptor (sm_point2 m)"]
    by auto
  from ij(3) have p1: "sm_point1 m \<in> set (s_features (fs ! i))" unfolding f1 .
  from ij(1,2) r(5,6) p1 r(2) refl[of ?d] r(3) r(1) r(4) cut show ?thesis
    by (intro exI[of _ i] exI[of _ j] exI[of _ ?d] exI[of _ second] conjI)
qed


subsection \<open>TwoViewReconstructor: camera assembly\<close>

lemma upt_0_9: "[0..<9] = [0, 1, 2, 3, 4, 5, 6, 7, 8::nat]"
  by (simp add: upt_rec)

text \<open>Camera 1 is the identity pose at the origin.\<close>

lemma make_camera1_identity:
  "position (make_camera1 K) = Vector3 0 0 0 \<and> translation (make_camera1 K) = Vector3 0 0 0 \<and>
   rotation (make_camera1 K) = Matrix3_identity \<and>
   applyMatrix3 X (rotation (make_camera1 K)) = X"
  by (cases X) (simp add: make_camera1_def Matrix3_identity_def Matrix3_set_def applyMatrix3_def)

text \<open>
  The rotation of camera 2 holds the nine numbers of \<^verbatim>\<open>R.data64F\<close> in the same order. OpenCV
  wrote them row by row and three.js reads them column by column, so the three.js matrix
  is the transpose of the recovered rotation, and the position of camera 2 comes out as
  \<open>-R \<cdot> t\<close>.
\<close>

lemma make_camera2_rotation_elements:
  "elements (rotation (make_camera2 K R t)) = [R 0, R 1, R 2, R 3, R 4, R 5, R 6, R 7, R 8]"
  by (simp add: make_camera2_def Matrix3_fromArray_def Let_def upt_0_9)

lemma make_camera2_rotation_transposed:
  assumes "i < 3" "j < 3"
  shows "three_entry (rotation (make_camera2 K R t)) i j = cv_entry R j i"
proof -
  from assms have "i \<in> {0, 1, 2}" "j \<in> {0, 1, 2}" by auto
  then show ?thesis
    by (auto simp: three_entry_def make_camera2_rotation_elements cv_entry_def numeral_2_eq_2)
qed

lemma make_camera2_position:
  "position (make_camera2 K R t) = negate (mat_vec (cv_entry R) (Vector3 (t 0) (t 1) (t 2)))"
  by (simp add: make_camera2_def Matrix3_fromArray_def Matrix3_transpose_def Let_def upt_0_9
      applyMatrix3_def negate_def mat_vec_def cv_entry_def numeral_2_eq_2)

text \<open>
  Claim C5, at the recovered rotation \<open>quarter_turn\<close> and the recovered translation
  \<open>(1, 0, 0)\<close>: the code places camera 2 at \<open>(0, -1, 0)\<close>, which is \<open>-R \<cdot> t\<close>, whereas the
  negated translation rotated by the transpose of the recovered rotation, \<open>-R\<^sup>T \<cdot> t\<close>,
  is \<open>(0, 1, 0)\<close>. The three.js rotation of camera 2 has the entry 1 in row 0, column 1,
  where the recovered rotation has -1.
\<close>

theorem camera2_position_quarter_turn:
  "position (make_camera2 sample_intrinsics quarter_turn unit_x) = Vector3 0 (- 1) 0 \<and>
   negate (mat_vec (transposed (cv_entry quarter_turn)) (Vector3 (unit_x 0) (unit_x 1) (unit_x 2)))
     = Vector3 0 1 0 \<and>
   negate (mat_vec (cv_entry quarter_turn) (Vector3 (unit_x 0) (unit_x 1) (unit_x 2)))
     = Vector3 0 (- 1) 0 \<and>
   three_entry (rotation (make_camera2 sample_intrinsics quarter_turn unit_x)) 0 1 = 1 \<and>
   cv_entry quarter_turn 0 1 = - 1"
  by (simp add: make_camera2_position make_camera2_rotation_elements three_entry_def
      mat_vec_def cv_entry_def transposed_def negate_def quarter_turn_def unit_x_def)

subsection \<open>TwoViewReconstructor: validation of triangulated points\<close>

lemma pixel_distance_nonneg: "0 \<le> pixel_distance proj q"
  by (simp add: pixel_distance_def)

lemma calculateReprojectionError_average:
  assumes "calculateReprojectionError X m c1 c2 intr = Some e"
  shows "\<exists>proj1 proj2. projectPoint X c1 intr = Some proj1 \<and> projectPoint X c2 intr = Some proj2 \<and>
           e = (pixel_distance proj1 (point1 m) + pixel_distance proj2 (point2 m)) / 2 \<and> 0 \<le> e"
proof -
  from assms obtain proj1 proj2 where p: "projectPoint X c1 intr = Some proj1"
    "projectPoint X c2 intr = Some proj2"
    "e = (pixel_distance proj1 (point1 m) + pixel_distance proj2 (point2 m)) / 2"
    by (auto simp: calculateReprojectionError_def Let_def split: option.splits)
  moreover have "0 \<le> (pixel_distance proj1 (point1 m) + pixel_distance proj2 (point2 m)) / 2"
    using pixel_distance_nonneg[of proj1 "point1 m"] pixel_distance_nonneg[of proj2 "point2 m"]
    by simp
  ultimately show ?thesis by blast
qed

text \<open>
  Every point the loop pushes is its own column of \<^verbatim>\<open>points4D\<close> and went through all
  three guards there, with the inlier match of the same index.
\<close>

lemma accept_points_valid:
  "p \<in> set (accept_points cv p4 inl c1 c2 intr idxs rnd) \<Longrightarrow>
   \<exists>i \<in> set idxs. i < length inl \<and> p_position p = column_point p4 i \<and>
      0 < vz (p_position p) \<and> 0 < depth_in c2 (p_position p) \<and>
      calculateReprojectionError (p_position p) (inl ! i) c1 c2 intr
        = Some (p_reprojectionError p) \<and>
      p_reprojectionError p < 2 \<and> p_confidence p = 1 - p_reprojectionError p / 2 \<and>
      viewCount p = 2"
proof (induction idxs arbitrary: rnd)
  case Nil
  then show ?case by simp
next
  case (Cons i idxs)
  let ?W = "data64F p4 (i * 4 + 3)"
  let ?X = "Vector3 (data64F p4 (i * 4) / ?W) (data64F p4 (i * 4 + 1) / ?W)
              (data64F p4 (i * 4 + 2) / ?W)"
  let ?here = "\<bar>?W\<bar> > 1 / 10 ^ 6 \<and> 0 < vz ?X \<and> 0 < depth_in c2 ?X \<and> i < length inl \<and>
      (\<exists>e. calculateReprojectionError ?X (inl ! i) c1 c2 intr = Some e \<and> e < 2 \<and>
         p = \<lparr>p_position = ?X,
               p_color = \<lparr>red = 0.7 + random cv rnd * 0.3,
                          green = 0.7 + random cv (Suc rnd) * 0.3, blue = 0.9\<rparr>,
               p_confidence = 1.0 - (e / 2.0), p_reprojectionError = e, viewCount = 2\<rparr>)"
  from Cons.prems have "?here \<or>
      p \<in> set (accept_points cv p4 inl c1 c2 intr idxs rnd) \<or>
      p \<in> set (accept_points cv p4 inl c1 c2 intr idxs (Suc (Suc rnd)))"
    by (auto simp: Let_def depth_in_def split: if_splits option.splits)
  then consider (here) ?here
    | (later) n where "p \<in> set (accept_points cv p4 inl c1 c2 intr idxs n)" by blast
  then show ?case
  proof cases
    case here
    then show ?thesis by (auto simp: column_point_def)
  next
    case later
    from Cons.IH[OF later] show ?thesis by auto
  qed
qed

lemma set_inlierMatches: "set (inlierMatches f ms) \<subseteq> set ms"
  by (auto simp: inlierMatches_def dest: set_zip_rightD)

lemma depth_in_camera1 [simp]: "depth_in (make_camera1 intr) X = vz X"
  by (simp add: depth_in_def make_camera1_def Matrix3_identity_def Matrix3_set_def
      applyMatrix3_def vadd_def)

lemma triangulate_valid:
  assumes "p \<in> set (fst (triangulatePointsOpenCV cv ms c1 c2 intr msk K R t))"
  shows "\<exists>p4 i.
      triangulatePoints cv (gemm K (hconcat eye3 (\<lambda>i. 0))) (gemm K (hconcat R t))
        (points1_of (inlierMatches msk ms)) (points2_of (inlierMatches msk ms)) = Inr p4 \<and>
      i < cols p4 \<and> i < length (inlierMatches msk ms) \<and> p_position p = column_point p4 i \<and>
      inlierMatches msk ms ! i \<in> set ms \<and>
      0 < vz (p_position p) \<and> 0 < depth_in c2 (p_position p) \<and>
      calculateReprojectionError (p_position p) (inlierMatches msk ms ! i) c1 c2 intr
        = Some (p_reprojectionError p) \<and>
      p_reprojectionError p < 2 \<and> p_confidence p = 1 - p_reprojectionError p / 2 \<and>
      viewCount p = 2"
proof -
  let ?inl = "inlierMatches msk ms"
  from assms obtain p4 where p4:
    "triangulatePoints cv (gemm K (hconcat eye3 (\<lambda>i. 0))) (gemm K (hconcat R t))
        (points1_of ?inl) (points2_of ?inl) = Inr p4"
    "p \<in> set (accept_points cv p4 ?inl c1 c2 intr [0..<cols p4] 0)"
    by (auto simp: triangulatePointsOpenCV_def Let_def split: if_splits sum.splits)
  from accept_points_valid[OF p4(2)] obtain i where i: "i \<in> set [0..<cols p4]"
    "i < length ?inl" "p_position p = column_point p4 i"
    "0 < vz (p_position p)" "0 < depth_in c2 (p_position p)"
    "calculateReprojectionError (p_position p) (?inl ! i) c1 c2 intr = Some (p_reprojectionError p)"
    "p_reprojectionError p < 2" "p_confidence p = 1 - p_reprojectionError p / 2"
    "viewCount p = 2" by blast
  from i(1) have c: "i < cols p4" by simp
  from i(2) have "?inl ! i \<in> set ms" using set_inlierMatches nth_mem by blast
  with p4(1) c i(2-) show ?thesis by blast
qed

text \<open>
  What the guards of the loop establish, in the code's own terms. Every point in the
  result of the two-view stage is a column of the triangulation result; with the inlier
  match of the same index, the depth the code computes for it from each of the two stored
  camera poses is positive, the reprojection error the code computes for it with
  \<^verbatim>\<open>projectPoint\<close> is the mean of the two pixel distances and strictly below 2, and its
  confidence is \<open>1 - error / 2\<close>, which lies between 0 and 1.
\<close>

lemma accepted_points_guards:
  assumes "p \<in> set (tv_points3D (fst (performTwoViewReconstruction cv ms intrinsics)))"
  shows "\<exists>(pose :: PoseResult) p4 i camera1 camera2 proj1 proj2.
      tv_cameras (fst (performTwoViewReconstruction cv ms intrinsics)) = [camera1, camera2] \<and>
      camera1 = make_camera1 intrinsics \<and>
      camera2 = make_camera2 intrinsics (pose_R pose) (pose_t pose) \<and>
      i < cols p4 \<and> i < length (inlierMatches (pose_mask pose) ms) \<and>
      p_position p = column_point p4 i \<and>
      inlierMatches (pose_mask pose) ms ! i \<in> set ms \<and>
      0 < depth_in camera1 (p_position p) \<and> 0 < depth_in camera2 (p_position p) \<and>
      projectPoint (p_position p) camera1 intrinsics = Some proj1 \<and>
      projectPoint (p_position p) camera2 intrinsics = Some proj2 \<and>
      p_reprojectionError p =
        (pixel_distance proj1 (point1 (inlierMatches (pose_mask pose) ms ! i)) +
         pixel_distance proj2 (point2 (inlierMatches (pose_mask pose) ms ! i))) / 2 \<and>
      p_reprojectionError p < 2 \<and>
      p_confidence p = 1 - p_reprojectionError p / 2 \<and>
      0 \<le> p_confidence p \<and> p_confidence p \<le> 1"
proof -
  let ?K = "K_of intrinsics"
  let ?c1 = "make_camera1 intrinsics"
  from assms have "\<exists>pose :: PoseResult.
      tv_cameras (fst (performTwoViewReconstruction cv ms intrinsics)) =
            [?c1, make_camera2 intrinsics (pose_R pose) (pose_t pose)] \<and>
      p \<in> set (fst (triangulatePointsOpenCV cv ms ?c1
              (make_camera2 intrinsics (pose_R pose) (pose_t pose)) intrinsics
              (pose_mask pose) ?K (pose_R pose) (pose_t pose)))"
    by (auto simp: performTwoViewReconstruction_def Let_def tv_failure_def
        split: sum.splits if_splits)
  then obtain pose :: PoseResult where
    cams: "tv_cameras (fst (performTwoViewReconstruction cv ms intrinsics)) =
            [?c1, make_camera2 intrinsics (pose_R pose) (pose_t pose)]"
    and p: "p \<in> set (fst (triangulatePointsOpenCV cv ms ?c1
              (make_camera2 intrinsics (pose_R pose) (pose_t pose)) intrinsics
              (pose_mask pose) ?K (pose_R pose) (pose_t pose)))"
    by blast
  let ?c2 = "make_camera2 intrinsics (pose_R pose) (pose_t pose)"
  let ?inl = "inlierMatches (pose_mask pose) ms"
  from triangulate_valid[OF p] obtain p4 i where m: "i < cols p4" "i < length ?inl"
    "p_position p = column_point p4 i" "?inl ! i \<in> set ms"
    "0 < vz (p_position p)" "0 < depth_in ?c2 (p_position p)"
    "calculateReprojectionError (p_position p) (?inl ! i) ?c1 ?c2 intrinsics
       = Some (p_reprojectionError p)"
    "p_reprojectionError p < 2" "p_confidence p = 1 - p_reprojectionError p / 2" by blast
  from calculateReprojectionError_average[OF m(7)] obtain proj1 proj2 where
    pr: "projectPoint (p_position p) ?c1 intrinsics = Some proj1"
    "projectPoint (p_position p) ?c2 intrinsics = Some proj2"
    "p_reprojectionError p = (pixel_distance proj1 (point1 (?inl ! i)) +
        pixel_distance proj2 (point2 (?inl ! i))) / 2"
    "0 \<le> p_reprojectionError p" by blast
  from m(8,9) pr(4) have conf: "0 \<le> p_confidence p" "p_confidence p \<le> 1" by simp_all
  from m(5) have d1: "0 < depth_in ?c1 (p_position p)" by simp
  from cams m(1-4) d1 m(6) pr(1-3) m(8,9) conf show ?thesis
    by (intro exI[of _ pose] exI[of _ p4] exI[of _ i] exI[of _ ?c1] exI[of _ ?c2]
        exI[of _ proj1] exI[of _ proj2] conjI refl)
qed

text \<open>
  The two computations differ from the geometry of the triangulation. The stored
  rotation of camera 2 acts as the transpose of the recovered rotation, so the depth the
  code tests is the third coordinate of \<open>R\<^sup>T \<cdot> X + t\<close>; and \<^verbatim>\<open>projectPoint\<close> reads the
  principal point from \<^verbatim>\<open>elements[2]\<close> and \<^verbatim>\<open>elements[5]\<close>, which hold the zeros of the third
  row of the intrinsic matrix, so its pixel is the pinhole projection without the
  principal point.
\<close>

lemma depth_in_camera2:
  "depth_in (make_camera2 K R t) X
     = vz (vadd (mat_vec (transposed (cv_entry R)) X) (Vector3 (t 0) (t 1) (t 2)))"
  by (simp add: depth_in_def make_camera2_def Matrix3_fromArray_def Let_def upt_0_9
      applyMatrix3_def vadd_def mat_vec_def transposed_def cv_entry_def numeral_2_eq_2)

lemma projectPoint_camera1:
  assumes "vz X \<noteq> 0"
  shows "projectPoint X (make_camera1 (Matrix3_set fx 0 cx 0 fy cy 0 0 1))
           (Matrix3_set fx 0 cx 0 fy cy 0 0 1) = Some (pinhole fx fy 0 0 X)"
  using assms
  by (cases X) (simp add: projectPoint_def make_camera1_def Matrix3_identity_def Matrix3_set_def
      applyMatrix3_def vsub_def pinhole_def Let_def)

text \<open>The sample run through the two-view stage.\<close>

lemma eye3_list: "map eye3 [0..<9] = [1, 0, 0, 0, 1, 0, 0, 0, 1]"
  unfolding eye3_def by (simp add: upt_rec)

lemma sample_camera2:
  "make_camera2 K eye3 unit_x =
     \<lparr>position = Vector3 (- 1) 0 0, rotation = Matrix3 [1, 0, 0, 0, 1, 0, 0, 0, 1],
      translation = Vector3 1 0 0, intrinsicMatrix = K, isValid = True,
      reprojectionError = 0\<rparr>"
  unfolding make_camera2_def eye3_list
  by (simp add: Matrix3_fromArray_def Matrix3_transpose_def applyMatrix3_def negate_def
      Let_def upt_rec unit_x_def)


lemma inlierMatches_all: "(\<And>i. f i \<noteq> 0) \<Longrightarrow> inlierMatches f ms = ms"
proof -
  assume "\<And>i. f i \<noteq> 0"
  then have "filter (\<lambda>(i, m). f i \<noteq> 0) (zip [0..<length ms] ms) = zip [0..<length ms] ms"
    by (simp add: case_prod_beta)
  then show ?thesis by (simp add: inlierMatches_def)
qed

lemma sample_findEssentialMat:
  "findEssentialMat (sample_cv e inl) p1 p2 K RANSAC 0.999 1.0
     = Inr \<lparr>rows = e, cols = 3, data64F = (\<lambda>i. 0)\<rparr>"
  by (simp add: sample_cv_def)

lemma sample_recoverPose: "recoverPose (sample_cv e inl) E p1 p2 K = Inr (sample_pose inl)"
  by (simp add: sample_cv_def)

lemma sample_pose_fields:
  "pose_R (sample_pose inl) = eye3" "pose_t (sample_pose inl) = unit_x"
  "\<not> inlierCount (sample_pose inl) < 50"
  by (simp_all add: sample_pose_def)

lemma sample_two_view_degenerate:
  "performTwoViewReconstruction (sample_cv 0 inl) ms K =
     (tv_failure, [CallFindEssentialMat RANSAC 0.999 1.0])"
  unfolding performTwoViewReconstruction_def Let_def sample_findEssentialMat by simp


lemma sample_error:
  "calculateReprojectionError (Vector3 (1 / 768) 0 1) (sample_match 0 1 0)
     (make_camera1 sample_intrinsics) (make_camera2 sample_intrinsics eye3 unit_x)
     sample_intrinsics = Some 1"
  by (simp add: calculateReprojectionError_def projectPoint_def sample_camera2 make_camera1_def
      Matrix3_identity_def Matrix3_set_def sample_intrinsics_def applyMatrix3_def vsub_def
      pixel_distance_def sample_match_def sample_point_def Let_def)

lemma sample_accept:
  "accept_points (sample_cv 3 True) sample_points4D sample_matches
     (make_camera1 sample_intrinsics) (make_camera2 sample_intrinsics eye3 unit_x)
     sample_intrinsics [0] 0
   = [sample_point3D]"
  apply (simp add: Let_def sample_points4D_def sample_matches_length sample_matches_0
      sample_error del: One_nat_def)
  apply (simp add: sample_camera2 applyMatrix3_def vadd_def sample_point3D_def sample_cv_def)
  done

lemma sample_two_view_point:
  "performTwoViewReconstruction (sample_cv 3 True) sample_matches sample_intrinsics =
     (\<lparr>tv_success = True, tv_points3D = [sample_point3D],
       tv_cameras = [make_camera1 sample_intrinsics, make_camera2 sample_intrinsics eye3 unit_x]\<rparr>,
      [CallFindEssentialMat RANSAC 0.999 1.0, CallRecoverPose, CallTriangulatePoints])"
proof -
  have len: "\<not> length (points1_of sample_matches) < 10"
    by (simp add: points1_of_def sample_matches_def length_concat comp_def sum_list_triv)
  have acc: "accept_points (sample_cv 3 True) sample_points4D sample_matches
     (make_camera1 sample_intrinsics) (make_camera2 sample_intrinsics eye3 unit_x)
     sample_intrinsics [0..<cols sample_points4D] 0 = [sample_point3D]"
    using sample_accept by (simp add: upt_rec sample_points4D_def)
  have inl: "inlierMatches (pose_mask (sample_pose True)) sample_matches = sample_matches"
    by (rule inlierMatches_all) (simp add: sample_pose_def)
  have t: "triangulatePoints (sample_cv 3 True) P1 P2 a c = Inr sample_points4D" for P1 P2 a c
    by (simp add: sample_cv_def)
  have tri: "triangulatePointsOpenCV (sample_cv 3 True) sample_matches
     (make_camera1 sample_intrinsics) (make_camera2 sample_intrinsics eye3 unit_x)
     sample_intrinsics (pose_mask (sample_pose True)) K eye3 unit_x
       = ([sample_point3D], [CallTriangulatePoints])" for K
    unfolding triangulatePointsOpenCV_def Let_def inl t
    using len acc by simp
  show ?thesis
    unfolding performTwoViewReconstruction_def Let_def sample_findEssentialMat sample_recoverPose
    using tri by (simp add: sample_pose_fields)
qed










subsection \<open>The wait for OpenCV\<close>

lemma checkCV_ready: "ready (k + n) \<Longrightarrow> checkCV ready k = Some ()"
proof (induction n arbitrary: k)
  case 0
  then show ?case by (subst checkCV.simps) simp
next
  case (Suc n)
  from Suc.prems have "ready (Suc k + n)" by simp
  from Suc.IH[OF this] show ?case by (subst checkCV.simps) simp
qed

lemma checkCV_Some:
  assumes "checkCV ready k = Some u"
  shows "\<exists>j \<ge> k. ready j"
proof (rule checkCV.raw_induct[where P = "\<lambda>rdy i u. \<exists>j \<ge> i. rdy j", OF _ assms])
  fix f :: "(nat \<Rightarrow> bool) \<Rightarrow> nat \<Rightarrow> unit option" and rdy i v
  assume IH: "\<And>rdy' i' v'. f rdy' i' = Some v' \<Longrightarrow> \<exists>j \<ge> i'. rdy' j"
    and step: "(if rdy i then Some () else f rdy (Suc i)) = Some v"
  show "\<exists>j \<ge> i. rdy j"
  proof (cases "rdy i")
    case True then show ?thesis by blast
  next
    case False
    with step have "f rdy (Suc i) = Some v" by simp
    from IH[OF this] obtain j where "Suc i \<le> j" "rdy j" by blast
    then show ?thesis by (intro exI[of _ j]) simp
  qed
qed

text \<open>The wait ends exactly when the flag is set at some poll.\<close>

lemma waitForOpenCV_ready: "(\<exists>k. cvReady cv k) \<Longrightarrow> waitForOpenCV cv = Some ()"
  using checkCV_ready[of "cvReady cv" 0] by (auto simp: waitForOpenCV_def)

lemma waitForOpenCV_never: "(\<forall>k. \<not> cvReady cv k) \<Longrightarrow> waitForOpenCV cv = None"
proof -
  assume never: "\<forall>k. \<not> cvReady cv k"
  have "checkCV (cvReady cv) 0 = None"
  proof (cases "checkCV (cvReady cv) 0")
    case None then show ?thesis .
  next
    case (Some u)
    from checkCV_Some[OF this] never show ?thesis by blast
  qed
  with never show ?thesis by (simp add: waitForOpenCV_def)
qed

lemma generateModel_unsettled: "(\<forall>k. \<not> cvReady cv k) \<Longrightarrow> generateModel cv imgs = None"
  by (simp add: generateModel_def waitForOpenCV_never)

subsection \<open>The fallback model\<close>

lemma box_positions: "length (g_position (BoxGeometry 1 1 1 1 1 1)) = 72"
  by (simp add: BoxGeometry_def buildPlane_def buildPlane_vertices_def Let_def)

lemma box_index: "g_index (BoxGeometry 1 1 1 1 1 1) =
    Some [0, 2, 1, 2, 3, 1, 4, 6, 5, 6, 7, 5, 8, 10, 9, 10, 11, 9, 12, 14, 13, 14, 15, 13,
          16, 18, 17, 18, 19, 17, 20, 22, 21, 22, 23, 21]"
  by (simp add: BoxGeometry_def buildPlane_def buildPlane_indices_def Let_def upt_rec)

lemma box_corners: "length (remdups (triples (g_position (BoxGeometry 1 1 1 1 1 1)))) = 8"
  by (simp add: BoxGeometry_def buildPlane_def buildPlane_vertices_def Let_def upt_rec
      set_axis_def)

lemma createEmptyModel_vertices: "length (vertices createEmptyModel) = 72"
  by (simp add: createEmptyModel_def Let_def box_positions del: One_nat_def)

lemma createEmptyModel_corners: "length (remdups (triples (vertices createEmptyModel))) = 8"
  by (simp add: createEmptyModel_def Let_def box_corners del: One_nat_def)

lemma createEmptyModel_faces: "length (faces createEmptyModel) = 36"
  by (simp add: createEmptyModel_def Let_def box_index del: One_nat_def)

lemma createEmptyModel_fields:
  "g_position (geometry createEmptyModel) = vertices createEmptyModel"
  "g_color (geometry createEmptyModel) = None"
  "g_index (geometry createEmptyModel) = Some (faces createEmptyModel)"
  "sourceImageCount createEmptyModel = None"
  by (simp_all add: createEmptyModel_def Let_def BoxGeometry_def)

subsection \<open>The point cloud model\<close>

lemma length_position_buffer:
  "length (concat (map (\<lambda>p. [f p, g p, h p]) pts)) = 3 * length pts"
  by (induction pts) auto

lemma generateMeshFromPointCloud_vertices:
  "length (vertices (generateMeshFromPointCloud pts)) = (if pts = [] then 72 else 3 * length pts)"
  by (simp add: generateMeshFromPointCloud_def Let_def createEmptyModel_vertices
      length_position_buffer)

lemma generateMeshFromPointCloud_geometry:
  "g_position (geometry (generateMeshFromPointCloud pts)) = vertices (generateMeshFromPointCloud pts)"
  by (simp add: generateMeshFromPointCloud_def Let_def createEmptyModel_fields)

lemma generateMeshFromPointCloud_count:
  "sourceImageCount (generateMeshFromPointCloud pts) = None"
  by (simp add: generateMeshFromPointCloud_def Let_def createEmptyModel_fields)

lemma generateMeshFromPointCloud_cloud:
  "pts \<noteq> [] \<Longrightarrow>
   faces (generateMeshFromPointCloud pts) = [] \<and>
   (\<exists>c. g_color (geometry (generateMeshFromPointCloud pts)) = Some c \<and>
        length c = length (vertices (generateMeshFromPointCloud pts)))"
  by (simp add: generateMeshFromPointCloud_def Let_def length_position_buffer)

subsection \<open>The top level\<close>

text \<open>What \<^verbatim>\<open>generateModel\<close> returns once OpenCV is ready, by the outcome of steps 1 to 4.\<close>

lemma generateModel_exception:
  "waitForOpenCV cv = Some () \<Longrightarrow> reconstruct cv imgs = Inl e \<Longrightarrow>
   generateModel cv imgs = Some (Inr (createFallbackModel imgs, []))"
  by (simp add: generateModel_def pipeline_def)

lemma generateModel_failure:
  "waitForOpenCV cv = Some () \<Longrightarrow> reconstruct cv imgs = Inr (r, calls) \<Longrightarrow> \<not> rr_success r \<Longrightarrow>
   generateModel cv imgs = Some (Inr (createFallbackModel imgs, calls))"
  by (simp add: generateModel_def pipeline_def)

lemma generateModel_success:
  "waitForOpenCV cv = Some () \<Longrightarrow> reconstruct cv imgs = Inr (r, calls) \<Longrightarrow> rr_success r \<Longrightarrow>
   generateModel cv imgs = Some (Inr (generateMeshFromPointCloud (points3D r), calls))"
  by (simp add: generateModel_def pipeline_def)

lemma generateModel_cases:
  assumes "generateModel cv imgs = Some (Inr (m, calls))"
  shows "m = createEmptyModel \<or>
         (\<exists>pts. pts \<noteq> [] \<and> m = generateMeshFromPointCloud pts)"
proof -
  from assms have w: "waitForOpenCV cv = Some ()"
    by (simp add: generateModel_def split: option.splits)
  show ?thesis
  proof (cases "reconstruct cv imgs")
    case (Inl e)
    from generateModel_exception[OF w Inl] assms show ?thesis
      by (simp add: createFallbackModel_def)
  next
    case (Inr rc)
    obtain r c where rc: "rc = (r, c)" by (cases rc)
    show ?thesis
    proof (cases "rr_success r")
      case False
      from generateModel_failure[OF w Inr[unfolded rc] False] assms show ?thesis
        by (simp add: createFallbackModel_def)
    next
      case True
      from generateModel_success[OF w Inr[unfolded rc] True] assms
      have m: "m = generateMeshFromPointCloud (points3D r)" by simp
      show ?thesis
      proof (cases "points3D r = []")
        case True
        with m show ?thesis by (simp add: generateMeshFromPointCloud_def)
      next
        case False
        with m show ?thesis by blast
      qed
    qed
  qed
qed

text \<open>
  Claim C1. \<^verbatim>\<open>generateModel\<close> is never rejected with an error. When the OpenCV runtime
  signals at some poll that it is ready, the call is fulfilled with a model whose vertex
  buffer is not empty, is the position attribute of its geometry and holds whole triples;
  when steps 1 to 4 end with an exception, or with a reconstruction result that is not a
  success, that model is the fallback model. When the runtime never signals that it is
  ready, the call never settles: it returns no model.
\<close>

theorem generateModel_never_raises:
  "(\<forall>e. generateModel cv imgs \<noteq> Some (Inl e)) \<and>
   ((\<exists>k. cvReady cv k) \<longrightarrow>
      (\<exists>m calls. generateModel cv imgs = Some (Inr (m, calls)) \<and>
         vertices m \<noteq> [] \<and> g_position (geometry m) = vertices m \<and>
         length (vertices m) mod 3 = 0 \<and>
         ((\<exists>e. reconstruct cv imgs = Inl e) \<longrightarrow> m = createFallbackModel imgs) \<and>
         (\<forall>r c. reconstruct cv imgs = Inr (r, c) \<and> \<not> rr_success r \<longrightarrow>
                  m = createFallbackModel imgs))) \<and>
   ((\<forall>k. \<not> cvReady cv k) \<longrightarrow> generateModel cv imgs = None)"
proof (intro conjI allI impI)
  fix e show "generateModel cv imgs \<noteq> Some (Inl e)"
    by (simp add: generateModel_def split: option.splits sum.splits)
next
  assume "\<forall>k. \<not> cvReady cv k"
  then show "generateModel cv imgs = None" by (rule generateModel_unsettled)
next
  assume "\<exists>k. cvReady cv k"
  then have w: "waitForOpenCV cv = Some ()" by (rule waitForOpenCV_ready)
  have fb: "vertices (createFallbackModel imgs) \<noteq> []"
    "length (vertices (createFallbackModel imgs)) mod 3 = 0"
    "g_position (geometry (createFallbackModel imgs)) = vertices (createFallbackModel imgs)"
    using createEmptyModel_vertices createEmptyModel_fields(1)
    by (auto simp: createFallbackModel_def)
  show "\<exists>m calls. generateModel cv imgs = Some (Inr (m, calls)) \<and>
         vertices m \<noteq> [] \<and> g_position (geometry m) = vertices m \<and>
         length (vertices m) mod 3 = 0 \<and>
         ((\<exists>e. reconstruct cv imgs = Inl e) \<longrightarrow> m = createFallbackModel imgs) \<and>
         (\<forall>r c. reconstruct cv imgs = Inr (r, c) \<and> \<not> rr_success r \<longrightarrow>
                  m = createFallbackModel imgs)"
  proof (cases "reconstruct cv imgs")
    case (Inl e)
    from generateModel_exception[OF w Inl] Inl fb show ?thesis by simp
  next
    case (Inr rc)
    obtain r c where rc: "rc = (r, c)" by (cases rc)
    show ?thesis
    proof (cases "rr_success r")
      case False
      from generateModel_failure[OF w Inr[unfolded rc] False] Inr rc fb show ?thesis by simp
    next
      case True
      let ?m = "generateMeshFromPointCloud (points3D r)"
      have "length (vertices ?m) \<noteq> 0" "length (vertices ?m) mod 3 = 0"
        by (simp_all add: generateMeshFromPointCloud_vertices)
      with generateModel_success[OF w Inr[unfolded rc] True] Inr rc True
        generateMeshFromPointCloud_geometry
      show ?thesis by auto
    qed
  qed
qed

text \<open>The sample runs through steps 1 to 4.\<close>

lemma sample_cvReady: "\<exists>k. cvReady (sample_cv e inl) k"
  by (intro exI[of _ 2]) (simp add: sample_cv_def)

lemma sample_ready: "waitForOpenCV (sample_cv e inl) = Some ()"
  by (rule waitForOpenCV_ready) (rule sample_cvReady)

lemma sample_intrinsics_estimate:
  "estimateCameraIntrinsics (sample_cv e inl) (Some (sample_image 0))
     = Inr (sample_intrinsics, 640, 480)"
  by (simp add: estimateCameraIntrinsics_def sample_cv_def sample_intrinsics_def Let_def)

lemma sample_reconstruct:
  "reconstruct (sample_cv e inl) sample_images =
     Inr (performSfMReconstruction (sample_cv e inl) sample_features sample_matches
            sample_intrinsics)"
  unfolding reconstruct_def sample_extract
  by (simp add: sample_match_all) (simp add: sample_images_def sample_intrinsics_estimate)

lemma sample_key: "key_string (sample_match i j k) = pair_string (i, j)"
  by (simp add: key_string_def pair_string_def sample_match_def)

lemma sample_group: "group_matches (map (sample_match i j) ks) =
    (if ks = [] then [] else [(pair_string (i, j), map (sample_match i j) ks)])"
  by (induction ks rule: rev_induct)
    (auto simp: group_matches_def push_match_def has_key_def sample_key Let_def)

lemma sample_best:
  "findBestInitialPair sample_matches = Some \<lparr>image1 = 0, image2 = 1, matches = sample_matches\<rparr>"
proof -
  have "map (sample_match 0 1) [0..<50] \<noteq> []" by (simp add: upt_rec)
  then show ?thesis
    by (simp add: findBestInitialPair_def sample_matches_def sample_group split_pair_string
        del: One_nat_def)
qed

lemma sample_sfm:
  "performSfMReconstruction (sample_cv e inl) sample_features sample_matches sample_intrinsics =
     (let twoViewResult =
            performTwoViewReconstruction (sample_cv e inl) sample_matches sample_intrinsics
      in if \<not> tv_success (fst twoViewResult)
         then (sfm_failure ''Two-view reconstruction failed'', snd twoViewResult)
         else (\<lparr>points3D = tv_points3D (fst twoViewResult),
                cameras = tv_cameras (fst twoViewResult),
                rr_success = True, errorMessage = None\<rparr>,
               snd twoViewResult))"
  by (simp add: performSfMReconstruction_def sample_matches_length sample_best)

lemma sample_reconstruct_degenerate:
  "reconstruct (sample_cv 0 inl) sample_images =
     Inr (sfm_failure ''Two-view reconstruction failed'', [CallFindEssentialMat RANSAC 0.999 1.0])"
  by (simp add: sample_reconstruct sample_sfm sample_two_view_degenerate tv_failure_def)


lemma sample_reconstruct_point:
  "reconstruct (sample_cv 3 True) sample_images =
     Inr (\<lparr>points3D = [sample_point3D],
           cameras = [make_camera1 sample_intrinsics, make_camera2 sample_intrinsics eye3 unit_x],
           rr_success = True, errorMessage = None\<rparr>,
          [CallFindEssentialMat RANSAC 0.999 1.0, CallRecoverPose, CallTriangulatePoints])"
  by (simp add: sample_reconstruct sample_sfm sample_two_view_point)

lemma sample_reconstruct_no_images: "reconstruct (sample_cv e inl) [] = Inl TypeError"
  by (simp add: reconstruct_def extractORBFeatures_def robustFeatureMatching_def
      estimateCameraIntrinsics_def sample_cv_def)

theorem generateModel_never_raises_witness:
  "(\<exists>k. cvReady (sample_cv 3 True) k) \<and>
   (\<exists>m calls. generateModel (sample_cv 3 True) sample_images = Some (Inr (m, calls)) \<and>
      vertices m \<noteq> [] \<and> length (vertices m) mod 3 = 0) \<and>
   (\<exists>e. reconstruct (sample_cv 3 True) [] = Inl e) \<and>
   generateModel (sample_cv 3 True) [] = Some (Inr (createFallbackModel [], [])) \<and>
   (\<exists>r c. reconstruct (sample_cv 0 True) sample_images = Inr (r, c) \<and> \<not> rr_success r \<and>
      generateModel (sample_cv 0 True) sample_images
        = Some (Inr (createFallbackModel sample_images, c))) \<and>
   (\<forall>k. \<not> cvReady never_ready k) \<and> generateModel never_ready [] = None"
proof -
  have nr: "\<forall>k. \<not> cvReady never_ready k" by (simp add: never_ready_def)
  from generateModel_never_raises[of never_ready "[]", THEN conjunct2, THEN conjunct2] nr
  have un: "generateModel never_ready [] = None" by (rule mp)
  have r1: "\<exists>k. cvReady (sample_cv 3 True) k" and r0: "\<exists>k. cvReady (sample_cv 0 True) k"
    by (rule sample_cvReady)+
  have ex: "\<exists>e. reconstruct (sample_cv 3 True) [] = Inl e"
    by (simp add: sample_reconstruct_no_images)
  have fail: "reconstruct (sample_cv 0 True) sample_images =
      Inr (sfm_failure ''Two-view reconstruction failed'', [CallFindEssentialMat RANSAC 0.999 1.0])"
    "\<not> rr_success (sfm_failure ''Two-view reconstruction failed'')"
    by (simp_all add: sample_reconstruct_degenerate sfm_failure_def)
  from generateModel_never_raises[of "sample_cv 3 True" sample_images, THEN conjunct2, THEN conjunct1] r1
  have "\<exists>m calls. generateModel (sample_cv 3 True) sample_images = Some (Inr (m, calls)) \<and>
         vertices m \<noteq> [] \<and> g_position (geometry m) = vertices m \<and>
         length (vertices m) mod 3 = 0 \<and>
         ((\<exists>e. reconstruct (sample_cv 3 True) sample_images = Inl e) \<longrightarrow>
            m = createFallbackModel sample_images) \<and>
         (\<forall>r c. reconstruct (sample_cv 3 True) sample_images = Inr (r, c) \<and> \<not> rr_success r \<longrightarrow>
                  m = createFallbackModel sample_images)"
    by (rule mp)
  then obtain m calls where
    "generateModel (sample_cv 3 True) sample_images = Some (Inr (m, calls))"
    "vertices m \<noteq> []" "length (vertices m) mod 3 = 0"
    by (elim exE conjE)
  then have a: "\<exists>m calls. generateModel (sample_cv 3 True) sample_images = Some (Inr (m, calls)) \<and>
      vertices m \<noteq> [] \<and> length (vertices m) mod 3 = 0" by (intro exI conjI)
  from generateModel_never_raises[of "sample_cv 3 True" "[]", THEN conjunct2, THEN conjunct1] r1
  have "\<exists>m calls. generateModel (sample_cv 3 True) [] = Some (Inr (m, calls)) \<and>
         vertices m \<noteq> [] \<and> g_position (geometry m) = vertices m \<and>
         length (vertices m) mod 3 = 0 \<and>
         ((\<exists>e. reconstruct (sample_cv 3 True) [] = Inl e) \<longrightarrow> m = createFallbackModel []) \<and>
         (\<forall>r c. reconstruct (sample_cv 3 True) [] = Inr (r, c) \<and> \<not> rr_success r \<longrightarrow>
                  m = createFallbackModel [])"
    by (rule mp)
  then obtain m' calls' where m': "generateModel (sample_cv 3 True) [] = Some (Inr (m', calls'))"
    "(\<exists>e. reconstruct (sample_cv 3 True) [] = Inl e) \<longrightarrow> m' = createFallbackModel []"
    by (elim exE conjE)
  from m'(2) ex have "m' = createFallbackModel []" by (rule mp)
  with m'(1) generateModel_exception[of "sample_cv 3 True" "[]" TypeError]
    sample_ready[of 3 True] sample_reconstruct_no_images[of 3 True]
  have b': "generateModel (sample_cv 3 True) [] = Some (Inr (createFallbackModel [], []))"
    by simp
  from generateModel_never_raises[of "sample_cv 0 True" sample_images, THEN conjunct2, THEN conjunct1] r0
  have "\<exists>m calls. generateModel (sample_cv 0 True) sample_images = Some (Inr (m, calls)) \<and>
         vertices m \<noteq> [] \<and> g_position (geometry m) = vertices m \<and>
         length (vertices m) mod 3 = 0 \<and>
         ((\<exists>e. reconstruct (sample_cv 0 True) sample_images = Inl e) \<longrightarrow>
            m = createFallbackModel sample_images) \<and>
         (\<forall>r c. reconstruct (sample_cv 0 True) sample_images = Inr (r, c) \<and> \<not> rr_success r \<longrightarrow>
                  m = createFallbackModel sample_images)"
    by (rule mp)
  then obtain m'' calls'' where m'':
    "generateModel (sample_cv 0 True) sample_images = Some (Inr (m'', calls''))"
    "\<forall>r c. reconstruct (sample_cv 0 True) sample_images = Inr (r, c) \<and> \<not> rr_success r \<longrightarrow>
       m'' = createFallbackModel sample_images"
    by (elim exE conjE)
  from m''(2) fail have "m'' = createFallbackModel sample_images" by blast
  with m''(1) generateModel_failure[OF sample_ready[of 0 True] fail(1) fail(2)]
  have c': "generateModel (sample_cv 0 True) sample_images
      = Some (Inr (createFallbackModel sample_images, [CallFindEssentialMat RANSAC 0.999 1.0]))"
    by simp
  from fail c' have d: "\<exists>r c. reconstruct (sample_cv 0 True) sample_images = Inr (r, c) \<and>
      \<not> rr_success r \<and>
      generateModel (sample_cv 0 True) sample_images
        = Some (Inr (createFallbackModel sample_images, c))" by blast
  from r1 a ex b' d nr un show ?thesis by (intro conjI)
qed

text \<open>
  Claim C1 as stated fails on a backend whose flag \<^verbatim>\<open>window.cvReady\<close> is never set: the
  poll of \<^verbatim>\<open>waitForOpenCV\<close> re-arms its timer for ever and the call returns no model.
\<close>

theorem generateModel_never_ready:
  "(\<forall>k. \<not> cvReady never_ready k) \<and>
   waitForOpenCV never_ready = None \<and>
   generateModel never_ready sample_images = None"
proof -
  have nr: "\<forall>k. \<not> cvReady never_ready k" by (simp add: never_ready_def)
  from nr waitForOpenCV_never[OF nr] generateModel_unsettled[OF nr, of sample_images]
  show ?thesis by (intro conjI)
qed

subsection \<open>Essential-matrix estimation\<close>

text \<open>
  The stage consults the estimator once, with the two point arrays of the matches, the
  nine stored entries of the intrinsics, and the method RANSAC, the confidence 0.999 and
  the threshold 1.0. When the answer has no rows the stage fails with that one call made.
\<close>

lemma two_view_degenerate:
  assumes "findEssentialMat cv (points1_of ms) (points2_of ms) (K_of intrinsics) RANSAC 0.999 1.0
             = Inr E" and "rows E = 0"
  shows "performTwoViewReconstruction cv ms intrinsics
           = (tv_failure, [CallFindEssentialMat RANSAC 0.999 1.0])"
  using assms by (simp add: performTwoViewReconstruction_def Let_def)

text \<open>
  When the answer has rows, the stage goes on to pose recovery with that matrix, and
  succeeds exactly when pose recovery returns at least 50 inliers.
\<close>

lemma two_view_proceeds:
  assumes "findEssentialMat cv (points1_of ms) (points2_of ms) (K_of intrinsics) RANSAC 0.999 1.0
             = Inr E" and "rows E \<noteq> 0"
  shows "(\<exists>rest. snd (performTwoViewReconstruction cv ms intrinsics)
            = CallFindEssentialMat RANSAC 0.999 1.0 # CallRecoverPose # rest) \<and>
         (tv_success (fst (performTwoViewReconstruction cv ms intrinsics)) \<longleftrightarrow>
            (\<exists>pose :: PoseResult.
               recoverPose cv E (points1_of ms) (points2_of ms) (K_of intrinsics) = Inr pose \<and>
               50 \<le> inlierCount pose))"
proof (cases "recoverPose cv E (points1_of ms) (points2_of ms) (K_of intrinsics)")
  case (Inl e)
  with assms show ?thesis
    by (simp add: performTwoViewReconstruction_def Let_def tv_failure_def)
next
  case (Inr pose)
  with assms show ?thesis
    by (cases "inlierCount pose < 50")
      (simp_all add: performTwoViewReconstruction_def Let_def tv_failure_def)
qed

text \<open>
  The stages before the geometric one read neither \<^verbatim>\<open>cv.recoverPose\<close> nor
  \<^verbatim>\<open>cv.triangulatePoints\<close>.
\<close>

lemma extract_loop_frame:
  "extract_loop (cv\<lparr>recoverPose := rp, triangulatePoints := tp\<rparr>) i imgs = extract_loop cv i imgs"
  by (induction imgs arbitrary: i) (simp_all split: sum.splits)

lemma pair_best_frame:
  "pair_best (cv\<lparr>recoverPose := rp, triangulatePoints := tp\<rparr>) fs i j = pair_best cv fs i j"
  by (simp add: pair_best_def Let_def cong: sum.case_cong if_cong)

lemma match_pair_frame:
  "match_pair (cv\<lparr>recoverPose := rp, triangulatePoints := tp\<rparr>) fs i j = match_pair cv fs i j"
  by (simp add: match_pair_def pair_best_frame)

lemma stages_frame:
  "waitForOpenCV (cv\<lparr>recoverPose := rp, triangulatePoints := tp\<rparr>) = waitForOpenCV cv"
  "extractORBFeatures (cv\<lparr>recoverPose := rp, triangulatePoints := tp\<rparr>) imgs
     = extractORBFeatures cv imgs"
  "robustFeatureMatching (cv\<lparr>recoverPose := rp, triangulatePoints := tp\<rparr>) fs
     = robustFeatureMatching cv fs"
  "estimateCameraIntrinsics (cv\<lparr>recoverPose := rp, triangulatePoints := tp\<rparr>) img
     = estimateCameraIntrinsics cv img"
  by (simp_all add: waitForOpenCV_def extractORBFeatures_def extract_loop_frame
      robustFeatureMatching_def match_pair_frame estimateCameraIntrinsics_def
      cong: option.case_cong)

lemma selected_pair_length:
  assumes "findBestInitialPair ms = Some bp"
  shows "50 \<le> length ms"
proof -
  from assms have "fst (foldl select_step (None, 0) (group_matches ms)) = Some bp"
    by (simp add: findBestInitialPair_def)
  from selected_pair[OF this] have "50 \<le> length (matches_of ms (image1 bp, image2 bp))"
    by auto
  also have "\<dots> \<le> length ms" by (simp add: matches_of_def)
  finally show ?thesis .
qed

text \<open>
  A run of the pipeline in which the estimator answers the call of the geometric stage
  with a matrix without rows.
\<close>

lemma run_degenerate:
  assumes ready: "\<exists>k. cvReady cv k"
    and fs: "extractORBFeatures cv imgs = Inr fs"
    and ms: "robustFeatureMatching cv fs = Inr ms"
    and intr: "estimateCameraIntrinsics cv (case imgs of [] \<Rightarrow> None | img # rest \<Rightarrow> Some img)
                 = Inr (intr, w, h)"
    and bp: "findBestInitialPair ms = Some bp"
    and E: "findEssentialMat cv (points1_of (matches bp)) (points2_of (matches bp)) (K_of intr)
              RANSAC 0.999 1.0 = Inr E" "rows E = 0"
  shows "reconstruct cv imgs =
           Inr (sfm_failure ''Two-view reconstruction failed'',
                [CallFindEssentialMat RANSAC 0.999 1.0])"
    and "generateModel cv imgs =
           Some (Inr (createFallbackModel imgs, [CallFindEssentialMat RANSAC 0.999 1.0]))"
proof -
  from selected_pair_length[OF bp] have len: "\<not> length ms < 50" by simp
  have "performSfMReconstruction cv fs ms intr =
          (sfm_failure ''Two-view reconstruction failed'', [CallFindEssentialMat RANSAC 0.999 1.0])"
    using len bp by (simp add: performSfMReconstruction_def two_view_degenerate[OF E] tv_failure_def)
  with fs ms intr show rc: "reconstruct cv imgs =
           Inr (sfm_failure ''Two-view reconstruction failed'',
                [CallFindEssentialMat RANSAC 0.999 1.0])"
    by (simp add: reconstruct_def)
  have "\<not> rr_success (sfm_failure ''Two-view reconstruction failed'')"
    by (simp add: sfm_failure_def)
  from generateModel_failure[OF waitForOpenCV_ready[OF ready] rc this]
  show "generateModel cv imgs =
           Some (Inr (createFallbackModel imgs, [CallFindEssentialMat RANSAC 0.999 1.0]))" .
qed

text \<open>
  Claim C7. The two-view stage estimates the essential matrix with the call
  \<^verbatim>\<open>cv.findEssentialMat(pts1, pts2, K, cv.RANSAC, 0.999, 1.0)\<close>, and what it does next is
  decided by the answer to that call. When the answer is a matrix without rows, the
  stage returns its failure result after that one call, whatever pose recovery and
  triangulation would have returned. When the answer has rows, the stage goes on to pose
  recovery with it and succeeds exactly when pose recovery reports at least 50 inliers.
  A run of the pipeline whose estimator answers the call of the geometric stage (on the
  matches of the selected pair and the estimated intrinsics) with a matrix without rows
  ends with the reconstruction failure \<^verbatim>\<open>Two-view reconstruction failed\<close> and the
  fallback model, again whatever pose recovery and triangulation would have returned.
\<close>

theorem degenerate_essential_matrix_aborts:
  "(\<forall>E. findEssentialMat cv (points1_of ms) (points2_of ms) (K_of intrinsics) RANSAC 0.999 1.0
          = Inr E \<and> rows E = 0 \<longrightarrow>
        (\<forall>rp tp. performTwoViewReconstruction
                    (cv\<lparr>recoverPose := rp, triangulatePoints := tp\<rparr>) ms intrinsics
                  = (tv_failure, [CallFindEssentialMat RANSAC 0.999 1.0]))) \<and>
   (\<forall>E. findEssentialMat cv (points1_of ms) (points2_of ms) (K_of intrinsics) RANSAC 0.999 1.0
          = Inr E \<and> rows E \<noteq> 0 \<longrightarrow>
        (\<exists>rest. snd (performTwoViewReconstruction cv ms intrinsics)
            = CallFindEssentialMat RANSAC 0.999 1.0 # CallRecoverPose # rest) \<and>
        (tv_success (fst (performTwoViewReconstruction cv ms intrinsics)) \<longleftrightarrow>
           (\<exists>pose :: PoseResult.
              recoverPose cv E (points1_of ms) (points2_of ms) (K_of intrinsics) = Inr pose \<and>
              50 \<le> inlierCount pose))) \<and>
   (\<forall>fs ms' intr w h bp E.
      (\<exists>k. cvReady cv k) \<and>
      extractORBFeatures cv imgs = Inr fs \<and>
      robustFeatureMatching cv fs = Inr ms' \<and>
      estimateCameraIntrinsics cv (case imgs of [] \<Rightarrow> None | img # rest \<Rightarrow> Some img)
        = Inr (intr, w, h) \<and>
      findBestInitialPair ms' = Some bp \<and>
      findEssentialMat cv (points1_of (matches bp)) (points2_of (matches bp)) (K_of intr)
        RANSAC 0.999 1.0 = Inr E \<and>
      rows E = 0 \<longrightarrow>
      (\<forall>rp tp.
         reconstruct (cv\<lparr>recoverPose := rp, triangulatePoints := tp\<rparr>) imgs =
           Inr (sfm_failure ''Two-view reconstruction failed'',
                [CallFindEssentialMat RANSAC 0.999 1.0]) \<and>
         generateModel (cv\<lparr>recoverPose := rp, triangulatePoints := tp\<rparr>) imgs =
           Some (Inr (createFallbackModel imgs, [CallFindEssentialMat RANSAC 0.999 1.0]))))"
proof -
  have A: "\<forall>E. findEssentialMat cv (points1_of ms) (points2_of ms) (K_of intrinsics) RANSAC 0.999 1.0
          = Inr E \<and> rows E = 0 \<longrightarrow>
        (\<forall>rp tp. performTwoViewReconstruction
                    (cv\<lparr>recoverPose := rp, triangulatePoints := tp\<rparr>) ms intrinsics
                  = (tv_failure, [CallFindEssentialMat RANSAC 0.999 1.0]))"
  proof (intro allI impI)
    fix E :: CvMat and rp tp
    assume a: "findEssentialMat cv (points1_of ms) (points2_of ms) (K_of intrinsics)
        RANSAC 0.999 1.0 = Inr E \<and> rows E = 0"
    then have "findEssentialMat (cv\<lparr>recoverPose := rp, triangulatePoints := tp\<rparr>)
        (points1_of ms) (points2_of ms) (K_of intrinsics) RANSAC 0.999 1.0 = Inr E" by simp
    from two_view_degenerate[OF this] a
    show "performTwoViewReconstruction (cv\<lparr>recoverPose := rp, triangulatePoints := tp\<rparr>)
            ms intrinsics = (tv_failure, [CallFindEssentialMat RANSAC 0.999 1.0])" by simp
  qed
  have B: "\<forall>E. findEssentialMat cv (points1_of ms) (points2_of ms) (K_of intrinsics) RANSAC 0.999 1.0
          = Inr E \<and> rows E \<noteq> 0 \<longrightarrow>
        (\<exists>rest. snd (performTwoViewReconstruction cv ms intrinsics)
            = CallFindEssentialMat RANSAC 0.999 1.0 # CallRecoverPose # rest) \<and>
        (tv_success (fst (performTwoViewReconstruction cv ms intrinsics)) \<longleftrightarrow>
           (\<exists>pose :: PoseResult.
              recoverPose cv E (points1_of ms) (points2_of ms) (K_of intrinsics) = Inr pose \<and>
              50 \<le> inlierCount pose))"
  proof (intro allI impI)
    fix E :: CvMat
    assume a: "findEssentialMat cv (points1_of ms) (points2_of ms) (K_of intrinsics)
        RANSAC 0.999 1.0 = Inr E \<and> rows E \<noteq> 0"
    from a have e: "findEssentialMat cv (points1_of ms) (points2_of ms) (K_of intrinsics)
        RANSAC 0.999 1.0 = Inr E" and r: "rows E \<noteq> 0" by simp_all
    from two_view_proceeds[OF e r]
    show "(\<exists>rest. snd (performTwoViewReconstruction cv ms intrinsics)
            = CallFindEssentialMat RANSAC 0.999 1.0 # CallRecoverPose # rest) \<and>
        (tv_success (fst (performTwoViewReconstruction cv ms intrinsics)) \<longleftrightarrow>
           (\<exists>pose :: PoseResult.
              recoverPose cv E (points1_of ms) (points2_of ms) (K_of intrinsics) = Inr pose \<and>
              50 \<le> inlierCount pose))" .
  qed
  have C: "\<forall>fs ms' intr w h bp E.
      (\<exists>k. cvReady cv k) \<and>
      extractORBFeatures cv imgs = Inr fs \<and>
      robustFeatureMatching cv fs = Inr ms' \<and>
      estimateCameraIntrinsics cv (case imgs of [] \<Rightarrow> None | img # rest \<Rightarrow> Some img)
        = Inr (intr, w, h) \<and>
      findBestInitialPair ms' = Some bp \<and>
      findEssentialMat cv (points1_of (matches bp)) (points2_of (matches bp)) (K_of intr)
        RANSAC 0.999 1.0 = Inr E \<and>
      rows E = 0 \<longrightarrow>
      (\<forall>rp tp.
         reconstruct (cv\<lparr>recoverPose := rp, triangulatePoints := tp\<rparr>) imgs =
           Inr (sfm_failure ''Two-view reconstruction failed'',
                [CallFindEssentialMat RANSAC 0.999 1.0]) \<and>
         generateModel (cv\<lparr>recoverPose := rp, triangulatePoints := tp\<rparr>) imgs =
           Some (Inr (createFallbackModel imgs, [CallFindEssentialMat RANSAC 0.999 1.0])))"
  proof (intro allI impI)
    fix fs ms' intr w h bp and E :: CvMat and rp tp
    let ?cv = "cv\<lparr>recoverPose := rp, triangulatePoints := tp\<rparr>"
    assume a: "(\<exists>k. cvReady cv k) \<and>
      extractORBFeatures cv imgs = Inr fs \<and>
      robustFeatureMatching cv fs = Inr ms' \<and>
      estimateCameraIntrinsics cv (case imgs of [] \<Rightarrow> None | img # rest \<Rightarrow> Some img)
        = Inr (intr, w, h) \<and>
      findBestInitialPair ms' = Some bp \<and>
      findEssentialMat cv (points1_of (matches bp)) (points2_of (matches bp)) (K_of intr)
        RANSAC 0.999 1.0 = Inr E \<and>
      rows E = 0"
    then have ready: "\<exists>k. cvReady ?cv k"
      and fs: "extractORBFeatures ?cv imgs = Inr fs"
      and ms: "robustFeatureMatching ?cv fs = Inr ms'"
      and intr: "estimateCameraIntrinsics ?cv (case imgs of [] \<Rightarrow> None | img # rest \<Rightarrow> Some img)
                   = Inr (intr, w, h)"
      and bp: "findBestInitialPair ms' = Some bp"
      and E: "findEssentialMat ?cv (points1_of (matches bp)) (points2_of (matches bp)) (K_of intr)
                RANSAC 0.999 1.0 = Inr E" "rows E = 0"
      by (simp_all add: stages_frame)
    from run_degenerate[OF ready fs ms intr bp E]
    show "reconstruct ?cv imgs =
             Inr (sfm_failure ''Two-view reconstruction failed'',
                  [CallFindEssentialMat RANSAC 0.999 1.0]) \<and>
           generateModel ?cv imgs =
             Some (Inr (createFallbackModel imgs, [CallFindEssentialMat RANSAC 0.999 1.0]))"
      by (intro conjI)
  qed
  from A B C show ?thesis by (intro conjI)
qed

text \<open>
  The sample backend with \<open>erows = 0\<close> answers with a matrix without rows exactly when it
  is called with RANSAC, 0.999 and 1.0, and the one with \<open>erows = 3\<close> exactly when it is
  called with anything else.
\<close>

lemma sample_estimator_other:
  "findEssentialMat (sample_cv e inl) p1 p2 K LMEDS 0.999 1.0
     = Inr \<lparr>rows = 3 - e, cols = 3, data64F = (\<lambda>i. 0)\<rparr>"
  "findEssentialMat (sample_cv e inl) p1 p2 K RANSAC 0.99 1.0
     = Inr \<lparr>rows = 3 - e, cols = 3, data64F = (\<lambda>i. 0)\<rparr>"
  "findEssentialMat (sample_cv e inl) p1 p2 K RANSAC 0.999 3.0
     = Inr \<lparr>rows = 3 - e, cols = 3, data64F = (\<lambda>i. 0)\<rparr>"
  by (simp_all add: sample_cv_def)

lemma sample_update:
  "(sample_cv e inl)\<lparr>recoverPose := recoverPose (sample_cv e inl),
      triangulatePoints := triangulatePoints (sample_cv e inl)\<rparr> = sample_cv e inl"
  by simp

theorem degenerate_essential_matrix_aborts_witness:
  "findEssentialMat (sample_cv 0 True) (points1_of sample_matches) (points2_of sample_matches)
      (K_of sample_intrinsics) RANSAC 0.999 1.0
     = Inr \<lparr>rows = 0, cols = 3, data64F = (\<lambda>i. 0)\<rparr> \<and>
   rows \<lparr>rows = 0, cols = 3, data64F = (\<lambda>i. 0 :: real)\<rparr> = 0 \<and>
   findEssentialMat (sample_cv 0 True) (points1_of sample_matches) (points2_of sample_matches)
      (K_of sample_intrinsics) LMEDS 0.999 1.0
     = Inr \<lparr>rows = 3, cols = 3, data64F = (\<lambda>i. 0)\<rparr> \<and>
   performTwoViewReconstruction (sample_cv 0 True) sample_matches sample_intrinsics
     = (tv_failure, [CallFindEssentialMat RANSAC 0.999 1.0]) \<and>
   findEssentialMat (sample_cv 3 True) (points1_of sample_matches) (points2_of sample_matches)
      (K_of sample_intrinsics) RANSAC 0.999 1.0
     = Inr \<lparr>rows = 3, cols = 3, data64F = (\<lambda>i. 0)\<rparr> \<and>
   rows \<lparr>rows = 3, cols = 3, data64F = (\<lambda>i. 0 :: real)\<rparr> \<noteq> 0 \<and>
   findEssentialMat (sample_cv 3 True) (points1_of sample_matches) (points2_of sample_matches)
      (K_of sample_intrinsics) LMEDS 0.999 1.0
     = Inr \<lparr>rows = 0, cols = 3, data64F = (\<lambda>i. 0)\<rparr> \<and>
   recoverPose (sample_cv 3 True) \<lparr>rows = 3, cols = 3, data64F = (\<lambda>i. 0)\<rparr>
      (points1_of sample_matches) (points2_of sample_matches) (K_of sample_intrinsics)
     = Inr (sample_pose True) \<and>
   50 \<le> inlierCount (sample_pose True) \<and>
   tv_success (fst (performTwoViewReconstruction (sample_cv 3 True) sample_matches
     sample_intrinsics)) \<and>
   (\<exists>rest. snd (performTwoViewReconstruction (sample_cv 3 True) sample_matches sample_intrinsics)
      = CallFindEssentialMat RANSAC 0.999 1.0 # CallRecoverPose # rest) \<and>
   (\<exists>k. cvReady (sample_cv 0 True) k) \<and>
   extractORBFeatures (sample_cv 0 True) sample_images = Inr sample_features \<and>
   robustFeatureMatching (sample_cv 0 True) sample_features = Inr sample_matches \<and>
   estimateCameraIntrinsics (sample_cv 0 True) (Some (sample_image 0))
     = Inr (sample_intrinsics, 640, 480) \<and>
   findBestInitialPair sample_matches
     = Some \<lparr>image1 = 0, image2 = 1, matches = sample_matches\<rparr> \<and>
   reconstruct (sample_cv 0 True) sample_images =
     Inr (sfm_failure ''Two-view reconstruction failed'',
          [CallFindEssentialMat RANSAC 0.999 1.0]) \<and>
   generateModel (sample_cv 0 True) sample_images =
     Some (Inr (createFallbackModel sample_images, [CallFindEssentialMat RANSAC 0.999 1.0]))"
proof -
  let ?E0 = "\<lparr>rows = 0, cols = 3, data64F = (\<lambda>i. 0 :: real)\<rparr>"
  let ?E3 = "\<lparr>rows = 3, cols = 3, data64F = (\<lambda>i. 0 :: real)\<rparr>"
  let ?p1 = "points1_of sample_matches" and ?p2 = "points2_of sample_matches"
  let ?K = "K_of sample_intrinsics"
  let ?bp = "\<lparr>image1 = 0, image2 = 1, matches = sample_matches\<rparr>"
  note t0 = degenerate_essential_matrix_aborts[of "sample_cv 0 True" sample_matches
      sample_intrinsics sample_images]
  note t3 = degenerate_essential_matrix_aborts[of "sample_cv 3 True" sample_matches
      sample_intrinsics sample_images]
  have e0: "findEssentialMat (sample_cv 0 True) ?p1 ?p2 ?K RANSAC 0.999 1.0 = Inr ?E0"
    by (rule sample_findEssentialMat)
  have e3: "findEssentialMat (sample_cv 3 True) ?p1 ?p2 ?K RANSAC 0.999 1.0 = Inr ?E3"
    by (rule sample_findEssentialMat)
  have o0: "findEssentialMat (sample_cv 0 True) ?p1 ?p2 ?K LMEDS 0.999 1.0 = Inr ?E3"
    using sample_estimator_other(1)[of 0 True ?p1 ?p2 ?K] by simp
  have o3: "findEssentialMat (sample_cv 3 True) ?p1 ?p2 ?K LMEDS 0.999 1.0 = Inr ?E0"
    using sample_estimator_other(1)[of 3 True ?p1 ?p2 ?K] by simp
  have r0: "rows ?E0 = 0" and r3: "rows ?E3 \<noteq> 0" by simp_all
  from t0[THEN conjunct1, rule_format, of ?E0] e0 r0
  have "\<forall>rp tp. performTwoViewReconstruction
                    ((sample_cv 0 True)\<lparr>recoverPose := rp, triangulatePoints := tp\<rparr>)
                    sample_matches sample_intrinsics
                  = (tv_failure, [CallFindEssentialMat RANSAC 0.999 1.0])" by blast
  from this[rule_format, where rp = "recoverPose (sample_cv 0 True)"
      and tp = "triangulatePoints (sample_cv 0 True)"]
  have c1: "performTwoViewReconstruction (sample_cv 0 True) sample_matches sample_intrinsics
     = (tv_failure, [CallFindEssentialMat RANSAC 0.999 1.0])"
    unfolding sample_update .
  have rp: "recoverPose (sample_cv 3 True) ?E3 ?p1 ?p2 ?K = Inr (sample_pose True)"
    by (rule sample_recoverPose)
  have ic: "50 \<le> inlierCount (sample_pose True)" by (simp add: sample_pose_def)
  from t3[THEN conjunct2, THEN conjunct1, rule_format, of ?E3] e3 r3
  have b: "(\<exists>rest. snd (performTwoViewReconstruction (sample_cv 3 True) sample_matches
              sample_intrinsics) = CallFindEssentialMat RANSAC 0.999 1.0 # CallRecoverPose # rest) \<and>
        (tv_success (fst (performTwoViewReconstruction (sample_cv 3 True) sample_matches
              sample_intrinsics)) \<longleftrightarrow>
           (\<exists>pose :: PoseResult. recoverPose (sample_cv 3 True) ?E3 ?p1 ?p2 ?K = Inr pose \<and>
              50 \<le> inlierCount pose))" by blast
  from b have c2: "\<exists>rest. snd (performTwoViewReconstruction (sample_cv 3 True) sample_matches
              sample_intrinsics) = CallFindEssentialMat RANSAC 0.999 1.0 # CallRecoverPose # rest"
    by (rule conjunct1)
  from rp ic have "\<exists>pose :: PoseResult. recoverPose (sample_cv 3 True) ?E3 ?p1 ?p2 ?K = Inr pose \<and>
              50 \<le> inlierCount pose" by blast
  with b have c3: "tv_success (fst (performTwoViewReconstruction (sample_cv 3 True) sample_matches
              sample_intrinsics))" by blast
  have h1: "\<exists>k. cvReady (sample_cv 0 True) k" by (rule sample_cvReady)
  have h2: "extractORBFeatures (sample_cv 0 True) sample_images = Inr sample_features"
    by (rule sample_extract)
  have h3: "robustFeatureMatching (sample_cv 0 True) sample_features = Inr sample_matches"
    by (rule sample_match_all)
  have h4: "estimateCameraIntrinsics (sample_cv 0 True) (Some (sample_image 0))
     = Inr (sample_intrinsics, 640, 480)" by (rule sample_intrinsics_estimate)
  then have h4': "estimateCameraIntrinsics (sample_cv 0 True)
      (case sample_images of [] \<Rightarrow> None | img # rest \<Rightarrow> Some img)
     = Inr (sample_intrinsics, 640, 480)" by (simp add: sample_images_def)
  have h5: "findBestInitialPair sample_matches = Some ?bp" by (rule sample_best)
  have h6: "findEssentialMat (sample_cv 0 True) (points1_of (matches ?bp))
      (points2_of (matches ?bp)) ?K RANSAC 0.999 1.0 = Inr ?E0"
    using e0 by simp
  from t0[THEN conjunct2, THEN conjunct2] h1 h2 h3 h4' h5 h6 r0
  have "\<forall>rp tp.
     reconstruct ((sample_cv 0 True)\<lparr>recoverPose := rp, triangulatePoints := tp\<rparr>)
       sample_images =
       Inr (sfm_failure ''Two-view reconstruction failed'',
            [CallFindEssentialMat RANSAC 0.999 1.0]) \<and>
     generateModel ((sample_cv 0 True)\<lparr>recoverPose := rp, triangulatePoints := tp\<rparr>)
       sample_images =
       Some (Inr (createFallbackModel sample_images, [CallFindEssentialMat RANSAC 0.999 1.0]))"
    by blast
  from this[rule_format, where rp = "recoverPose (sample_cv 0 True)"
      and tp = "triangulatePoints (sample_cv 0 True)"]
  have c4: "reconstruct (sample_cv 0 True) sample_images =
     Inr (sfm_failure ''Two-view reconstruction failed'',
          [CallFindEssentialMat RANSAC 0.999 1.0]) \<and>
   generateModel (sample_cv 0 True) sample_images =
     Some (Inr (createFallbackModel sample_images, [CallFindEssentialMat RANSAC 0.999 1.0]))"
    unfolding sample_update .
  from c4 have c5: "reconstruct (sample_cv 0 True) sample_images =
     Inr (sfm_failure ''Two-view reconstruction failed'',
          [CallFindEssentialMat RANSAC 0.999 1.0])" by (rule conjunct1)
  from c4 have c6: "generateModel (sample_cv 0 True) sample_images =
     Some (Inr (createFallbackModel sample_images, [CallFindEssentialMat RANSAC 0.999 1.0]))"
    by (rule conjunct2)
  from e0 r0 o0 c1 e3 r3 o3 rp ic c3 c2 h1 h2 h3 h4 h5 c5 c6 show ?thesis
    by (intro conjI)
qed

subsection \<open>Too few correspondences\<close>

lemma sfm_no_pair:
  assumes "findBestInitialPair ms = None"
  shows "performSfMReconstruction cv fs ms intrinsics =
           (sfm_failure (if length ms < 50
                         then ''Insufficient feature matches for reconstruction''
                         else ''Could not find suitable image pair for initialization''), [])"
  using assms by (simp add: performSfMReconstruction_def)

lemma findBestInitialPair_None:
  assumes "\<forall>k. pair_count ms k < 50"
  shows "findBestInitialPair ms = None"
proof (rule ccontr)
  let ?es = "group_matches ms"
  assume "findBestInitialPair ms \<noteq> None"
  then obtain bp where bp: "fst (foldl select_step (None, 0) ?es) = Some bp"
    by (auto simp: findBestInitialPair_def)
  from selected_pair[OF bp] have "50 \<le> pair_count ms (image1 bp, image2 bp)"
    by (auto simp: pair_count_def)
  with assms[rule_format, of "(image1 bp, image2 bp)"] show False by simp
qed

lemma fallback_counts:
  "length (vertices (createFallbackModel imgs)) = 3 * 24 \<and>
   length (remdups (triples (vertices (createFallbackModel imgs)))) = 8 \<and>
   length (faces (createFallbackModel imgs)) = 3 * 12"
  by (simp add: createFallbackModel_def createEmptyModel_vertices createEmptyModel_corners
      createEmptyModel_faces)

text \<open>
  Claim C4, as amended. If no image pair has 50 correspondences,
  \<^verbatim>\<open>performSfMReconstruction\<close> returns a failure without calling OpenCV; its message is
  ``Insufficient feature matches for reconstruction'' when there are fewer than 50
  matches in total and ``Could not find suitable image pair for initialization''
  otherwise. A run whose matching stage yields such matches returns the fallback model.
  The fallback model is the three.js unit box: 24 vertex entries (the 8 corners, each
  once per adjoining side) and 12 triangles.
\<close>

theorem insufficient_matches_fallback:
  "(\<forall>k. pair_count ms k < 50) \<longrightarrow>
     performSfMReconstruction cv fs ms intrinsics =
       (sfm_failure (if length ms < 50
                     then ''Insufficient feature matches for reconstruction''
                     else ''Could not find suitable image pair for initialization''), []) \<and>
     ((\<exists>k. cvReady cv k) \<and> extractORBFeatures cv imgs = Inr fs \<and>
      robustFeatureMatching cv fs = Inr ms \<longrightarrow>
        generateModel cv imgs = Some (Inr (createFallbackModel imgs, []))) \<and>
     length (vertices (createFallbackModel imgs)) = 3 * 24 \<and>
     length (remdups (triples (vertices (createFallbackModel imgs)))) = 8 \<and>
     length (faces (createFallbackModel imgs)) = 3 * 12"
proof (intro impI conjI)
  assume small: "\<forall>k. pair_count ms k < 50"
  then have none: "findBestInitialPair ms = None" by (rule findBestInitialPair_None)
  then show sfm: "performSfMReconstruction cv fs ms intrinsics =
       (sfm_failure (if length ms < 50
                     then ''Insufficient feature matches for reconstruction''
                     else ''Could not find suitable image pair for initialization''), [])"
    by (rule sfm_no_pair)
  show "length (vertices (createFallbackModel imgs)) = 3 * 24"
    "length (remdups (triples (vertices (createFallbackModel imgs)))) = 8"
    "length (faces (createFallbackModel imgs)) = 3 * 12"
    using fallback_counts by blast+
  assume a: "(\<exists>k. cvReady cv k) \<and> extractORBFeatures cv imgs = Inr fs \<and>
      robustFeatureMatching cv fs = Inr ms"
  then have w: "waitForOpenCV cv = Some ()" using waitForOpenCV_ready by blast
  show "generateModel cv imgs = Some (Inr (createFallbackModel imgs, []))"
  proof (cases "reconstruct cv imgs")
    case (Inl e)
    from generateModel_exception[OF w Inl] show ?thesis .
  next
    case (Inr rc)
    with a obtain intr where "rc = performSfMReconstruction cv fs ms intr"
      by (auto simp: reconstruct_def split: sum.splits)
    with sfm_no_pair[OF none, of cv fs intr] obtain msg where rc: "rc = (sfm_failure msg, [])"
      by simp
    have "\<not> rr_success (sfm_failure msg)" by (simp add: sfm_failure_def)
    from generateModel_failure[OF w Inr[unfolded rc] this] show ?thesis .
  qed
qed

lemma sample_matches60_counts:
  "pair_count sample_matches60 k = (if k = (0, 1) \<or> k = (0, 2) then 30 else 0)"
  by (auto simp: pair_count_def matches_of_def sample_matches60_def filter_map comp_def
      key_of_def sample_match_def)

lemma sample_matches60_none: "findBestInitialPair sample_matches60 = None"
  by (rule findBestInitialPair_None) (simp add: sample_matches60_counts)

lemma sample_matches60_encountered: "encountered sample_matches60 = [(0, 1), (0, 2)]"
  by (simp add: encountered_def sample_matches60_def key_of_def sample_match_def upt_rec)

text \<open>
  Claim C4 as stated fails on 60 matches, 30 for each of the image pairs (0, 1) and
  (0, 2): the best pair has fewer than 50 correspondences, the reported failure is not
  the insufficient-matches one, and the fallback model has 24 vertices, not 8.
\<close>

theorem insufficient_matches_counterexample:
  "length sample_matches60 = 60 \<and>
   encountered sample_matches60 = [(0, 1), (0, 2)] \<and>
   pair_count sample_matches60 (0, 1) = 30 \<and> pair_count sample_matches60 (0, 2) = 30 \<and>
   findBestInitialPair sample_matches60 = None \<and>
   errorMessage (fst (performSfMReconstruction (sample_cv 3 True) sample_features
      sample_matches60 sample_intrinsics))
     = Some ''Could not find suitable image pair for initialization'' \<and>
   errorMessage (fst (performSfMReconstruction (sample_cv 3 True) sample_features
      sample_matches60 sample_intrinsics))
     \<noteq> Some ''Insufficient feature matches for reconstruction'' \<and>
   length (vertices (createFallbackModel sample_images)) div 3 = 24 \<and>
   length (vertices (createFallbackModel sample_images)) div 3 \<noteq> 8 \<and>
   length (faces (createFallbackModel sample_images)) div 3 = 12"
proof -
  have len: "length sample_matches60 = 60" by (simp add: sample_matches60_def)
  then have msg: "errorMessage (fst (performSfMReconstruction (sample_cv 3 True) sample_features
      sample_matches60 sample_intrinsics))
     = Some ''Could not find suitable image pair for initialization''"
    by (simp add: sfm_no_pair[OF sample_matches60_none] sfm_failure_def)
  from len msg show ?thesis
    by (simp add: sample_matches60_encountered sample_matches60_counts sample_matches60_none
        fallback_counts)
qed

lemma sample_single_image:
  "extractORBFeatures (sample_cv 3 True) [sample_image 0] = Inr [hd sample_features] \<and>
   robustFeatureMatching (sample_cv 3 True) [hd sample_features] = Inr []"
  by (simp add: extractORBFeatures_def robustFeatureMatching_def sample_cv_def
      sample_features_def sample_image_def)

theorem insufficient_matches_fallback_witness:
  "(\<forall>k. pair_count [] k < 50) \<and>
   (\<exists>k. cvReady (sample_cv 3 True) k) \<and>
   extractORBFeatures (sample_cv 3 True) [sample_image 0] = Inr [hd sample_features] \<and>
   robustFeatureMatching (sample_cv 3 True) [hd sample_features] = Inr [] \<and>
   performSfMReconstruction (sample_cv 3 True) [hd sample_features] [] sample_intrinsics =
     (sfm_failure ''Insufficient feature matches for reconstruction'', []) \<and>
   generateModel (sample_cv 3 True) [sample_image 0]
     = Some (Inr (createFallbackModel [sample_image 0], [])) \<and>
   (\<forall>k. pair_count sample_matches60 k < 50) \<and>
   performSfMReconstruction (sample_cv 3 True) sample_features sample_matches60 sample_intrinsics =
     (sfm_failure ''Could not find suitable image pair for initialization'', [])"
proof -
  have h0: "\<forall>k. pair_count [] k < 50" by (simp add: pair_count_def matches_of_def)
  have h1: "\<exists>k. cvReady (sample_cv 3 True) k" by (rule sample_cvReady)
  note h2 = sample_single_image
  have h3: "\<forall>k. pair_count sample_matches60 k < 50" by (simp add: sample_matches60_counts)
  from insufficient_matches_fallback[of "[]" "sample_cv 3 True" "[hd sample_features]"
      sample_intrinsics "[sample_image 0]"] h0 h1 h2
  have a: "performSfMReconstruction (sample_cv 3 True) [hd sample_features] [] sample_intrinsics =
     (sfm_failure ''Insufficient feature matches for reconstruction'', [])"
    "generateModel (sample_cv 3 True) [sample_image 0]
       = Some (Inr (createFallbackModel [sample_image 0], []))"
    by simp_all
  from insufficient_matches_fallback[of sample_matches60 "sample_cv 3 True" sample_features
      sample_intrinsics sample_images] h3
  have c: "performSfMReconstruction (sample_cv 3 True) sample_features sample_matches60
      sample_intrinsics =
     (sfm_failure ''Could not find suitable image pair for initialization'', [])"
    by (simp add: sample_matches60_def)
  from h0 h1 h2 a h3 c show ?thesis by (intro conjI) simp_all
qed


subsection \<open>An empty reconstruction\<close>



subsection \<open>The contents of a generated model\<close>

lemma generateMesh_fields:
  "sourceImageCount (generateMesh pts n) = Some n \<and>
   length (vertices (generateMesh pts n)) = 3 * length pts \<and>
   g_position (geometry (generateMesh pts n)) = vertices (generateMesh pts n) \<and>
   (\<exists>c. g_color (geometry (generateMesh pts n)) = Some c \<and> length c = 3 * length pts) \<and>
   g_index (geometry (generateMesh pts n)) = Some (faces (generateMesh pts n))"
  by (simp add: generateMesh_def Let_def length_position_buffer)

text \<open>
  Claim C10, as amended. A model returned by the Structure-from-Motion \<^verbatim>\<open>generateModel\<close>
  has a non-empty stride-3 vertex buffer, which is the position attribute of its
  geometry, and no count of source images; it is either the fallback box, with 36 face
  indices and no colour attribute, or a point cloud with no faces and a colour buffer as
  long as the vertex buffer. A model built by \<^verbatim>\<open>generateMesh\<close> in the simplified module
  has the stride-3 vertex buffer, a colour buffer of the same length, its face buffer as
  the index of the geometry, and the number of input images as its count of source
  images.
\<close>

theorem generated_model_contents:
  "(generateModel cv imgs = Some (Inr (m, calls)) \<longrightarrow>
      sourceImageCount m = None \<and>
      g_position (geometry m) = vertices m \<and> vertices m \<noteq> [] \<and>
      length (vertices m) mod 3 = 0 \<and>
      ((m = createEmptyModel \<and> g_color (geometry m) = None \<and> length (faces m) = 36) \<or>
       (faces m = [] \<and>
        (\<exists>c. g_color (geometry m) = Some c \<and> length c = length (vertices m))))) \<and>
   sourceImageCount (generateModel_simplified points_of imgs) = Some (length imgs) \<and>
   length (vertices (generateModel_simplified points_of imgs)) = 3 * length (points_of imgs) \<and>
   g_position (geometry (generateModel_simplified points_of imgs))
     = vertices (generateModel_simplified points_of imgs) \<and>
   (\<exists>c. g_color (geometry (generateModel_simplified points_of imgs)) = Some c \<and>
        length c = 3 * length (points_of imgs)) \<and>
   g_index (geometry (generateModel_simplified points_of imgs))
     = Some (faces (generateModel_simplified points_of imgs))"
proof (intro conjI impI)
  assume g: "generateModel cv imgs = Some (Inr (m, calls))"
  from generateModel_cases[OF g] consider (box) "m = createEmptyModel"
    | (cloud) pts where "pts \<noteq> []" "m = generateMeshFromPointCloud pts" by blast
  then have all: "sourceImageCount m = None \<and>
      g_position (geometry m) = vertices m \<and> vertices m \<noteq> [] \<and>
      length (vertices m) mod 3 = 0 \<and>
      ((m = createEmptyModel \<and> g_color (geometry m) = None \<and> length (faces m) = 36) \<or>
       (faces m = [] \<and>
        (\<exists>c. g_color (geometry m) = Some c \<and> length c = length (vertices m))))"
  proof cases
    case box
    have "vertices createEmptyModel \<noteq> []" "length (vertices createEmptyModel) mod 3 = 0"
      using createEmptyModel_vertices by auto
    with box show ?thesis
      by (simp add: createEmptyModel_fields createEmptyModel_faces)
  next
    case cloud
    have "length (vertices m) \<noteq> 0" "length (vertices m) mod 3 = 0"
      using cloud by (simp_all add: generateMeshFromPointCloud_vertices)
    with cloud generateMeshFromPointCloud_cloud[OF cloud(1)] show ?thesis
      by (auto simp: generateMeshFromPointCloud_count generateMeshFromPointCloud_geometry)
  qed
  from all show "sourceImageCount m = None" "g_position (geometry m) = vertices m"
    "vertices m \<noteq> []" "length (vertices m) mod 3 = 0"
    "(m = createEmptyModel \<and> g_color (geometry m) = None \<and> length (faces m) = 36) \<or>
       (faces m = [] \<and>
        (\<exists>c. g_color (geometry m) = Some c \<and> length c = length (vertices m)))"
    by blast+
next
  note f = generateMesh_fields[of "points_of imgs" "length imgs"]
  from f show "sourceImageCount (generateModel_simplified points_of imgs) = Some (length imgs)"
    by (simp add: generateModel_simplified_def)
  from f show "length (vertices (generateModel_simplified points_of imgs))
      = 3 * length (points_of imgs)"
    by (simp add: generateModel_simplified_def)
  from f show "g_position (geometry (generateModel_simplified points_of imgs))
     = vertices (generateModel_simplified points_of imgs)"
    by (simp add: generateModel_simplified_def)
  from f show "\<exists>c. g_color (geometry (generateModel_simplified points_of imgs)) = Some c \<and>
        length c = 3 * length (points_of imgs)"
    by (simp add: generateModel_simplified_def)
  from f show "g_index (geometry (generateModel_simplified points_of imgs))
     = Some (faces (generateModel_simplified points_of imgs))"
    by (simp add: generateModel_simplified_def)
qed

lemma sample_generateModel_point:
  "generateModel (sample_cv 3 True) sample_images =
     Some (Inr (generateMeshFromPointCloud [sample_point3D],
                [CallFindEssentialMat RANSAC 0.999 1.0, CallRecoverPose, CallTriangulatePoints]))"
  using generateModel_success[OF sample_ready sample_reconstruct_point] by simp

text \<open>
  Claim C10 as stated fails on the sample run with two images: the model handed over has
  no count of source images.
\<close>

theorem model_without_image_count:
  "length sample_images = 2 \<and>
   generateModel (sample_cv 3 True) sample_images =
     Some (Inr (generateMeshFromPointCloud [sample_point3D],
                [CallFindEssentialMat RANSAC 0.999 1.0, CallRecoverPose, CallTriangulatePoints])) \<and>
   sourceImageCount (generateMeshFromPointCloud [sample_point3D]) = None \<and>
   vertices (generateMeshFromPointCloud [sample_point3D]) = [1 / 768, 0, 1]"
proof (intro conjI)
  show "length sample_images = 2" by (simp add: sample_images_def)
  show "generateModel (sample_cv 3 True) sample_images =
     Some (Inr (generateMeshFromPointCloud [sample_point3D],
                [CallFindEssentialMat RANSAC 0.999 1.0, CallRecoverPose, CallTriangulatePoints]))"
    by (rule sample_generateModel_point)
  show "sourceImageCount (generateMeshFromPointCloud [sample_point3D]) = None"
    by (rule generateMeshFromPointCloud_count)
  show "vertices (generateMeshFromPointCloud [sample_point3D]) = [1 / 768, 0, 1]"
    by (simp add: generateMeshFromPointCloud_def sample_point3D_def Let_def)
qed

theorem generated_model_contents_witness:
  "generateModel (sample_cv 3 True) sample_images =
     Some (Inr (generateMeshFromPointCloud [sample_point3D],
                [CallFindEssentialMat RANSAC 0.999 1.0, CallRecoverPose, CallTriangulatePoints])) \<and>
   sourceImageCount (generateMeshFromPointCloud [sample_point3D]) = None \<and>
   vertices (generateMeshFromPointCloud [sample_point3D]) \<noteq> [] \<and>
   length (vertices (generateMeshFromPointCloud [sample_point3D])) mod 3 = 0 \<and>
   sourceImageCount (generateModel_simplified (\<lambda>imgs. []) sample_images)
     = Some (length sample_images)"
  using generated_model_contents[where cv = "sample_cv 3 True" and imgs = sample_images
      and m = "generateMeshFromPointCloud [sample_point3D]"
      and calls = "[CallFindEssentialMat RANSAC 0.999 1.0, CallRecoverPose, CallTriangulatePoints]"
      and points_of = "\<lambda>imgs. []"]
    sample_generateModel_point
  by simp


end
